theory Spec2Isabelle
  imports Complex_Main
begin

section \<open>Loyalty engine: the service and the order-event handlers\<close>

text \<open>
  A shallow embedding of \<^verbatim>\<open>src/event/src/services/loyalty.service.ts\<close> and of the
  order-event controller (\<^verbatim>\<open>handleOrderCreated\<close>, \<^verbatim>\<open>handleOrderCancelled\<close>).
  Every function keeps the name it has in the source. An \<^verbatim>\<open>async\<close> function that
  may reject is a function into \<open>error + 'a\<close>; the commerce platform behind
  \<^verbatim>\<open>apiRoot\<close> is an explicit \<open>world\<close> value, read by the fetches and returned
  updated by the single customer write.
\<close>

subsection \<open>JavaScript values\<close>

text \<open>
  A JavaScript \<^verbatim>\<open>number\<close> is either \<^verbatim>\<open>NaN\<close> or a finite double, which is a
  rational. A product and a quotient are rounded to the nearest double, ties to the even
  significand, as IEEE-754 prescribes. A sum and a difference are taken exactly: the
  program adds and subtracts whole numbers only (results of \<^verbatim>\<open>Math.floor\<close>), and such
  sums are exact in doubles below \<open>2 ^ 53\<close>. The two infinities (a result beyond the
  largest double) and the negative zero are not represented. Arithmetic propagates
  \<^verbatim>\<open>NaN\<close> and every comparison with \<^verbatim>\<open>NaN\<close> is false, as in the language.
\<close>

datatype number = Fin rat | NaN

text \<open>
  Rounding to a double. \<open>bitLength n\<close> is the number of binary digits of a positive
  integer, \<open>pow2 k\<close> is 2 to the (possibly negative) power \<open>k\<close>, and \<open>ilog2 x\<close> is
  the binary exponent of a positive rational \<open>x\<close>, the \<open>e\<close> with
  \<open>pow2 e \<le> x < pow2 (e + 1)\<close>. A double has 53 significant binary digits; below the
  smallest normal exponent \<open>-1022\<close> the spacing of the doubles stays \<open>pow2 (- 1074)\<close>.
\<close>

function bitLength :: "int \<Rightarrow> int" where
  "bitLength n = (if n \<le> 0 then 0 else 1 + bitLength (n div 2))"
  by pat_completeness auto
termination
  by (relation "measure nat") auto

declare bitLength.simps [simp del]

definition pow2 :: "int \<Rightarrow> rat" where
  "pow2 k = (if 0 \<le> k then 2 ^ nat k else 1 / 2 ^ nat (- k))"

definition ilog2 :: "rat \<Rightarrow> int" where
  "ilog2 x =
     (let k = bitLength (fst (quotient_of x)) - bitLength (snd (quotient_of x))
      in if pow2 k \<le> x then k else k - 1)"

definition roundHalfEven :: "rat \<Rightarrow> int" where
  "roundHalfEven y =
     (let n = \<lfloor>y\<rfloor>; f = y - of_int n
      in if f < 1 / 2 then n
         else if 1 / 2 < f then n + 1
         else if even n then n else n + 1)"

definition roundToDouble :: "rat \<Rightarrow> rat" where
  "roundToDouble x =
     (if x = 0 then 0
      else (let q = pow2 (max (ilog2 \<bar>x\<bar>) (- 1022) - 52)
            in sgn x * of_int (roundHalfEven (\<bar>x\<bar> / q)) * q))"

fun js_add :: "number \<Rightarrow> number \<Rightarrow> number" where
  "js_add (Fin a) (Fin b) = Fin (a + b)"
| "js_add _ _ = NaN"

fun js_sub :: "number \<Rightarrow> number \<Rightarrow> number" where
  "js_sub (Fin a) (Fin b) = Fin (a - b)"
| "js_sub _ _ = NaN"

fun js_mul :: "number \<Rightarrow> number \<Rightarrow> number" where
  "js_mul (Fin a) (Fin b) = Fin (roundToDouble (a * b))"
| "js_mul _ _ = NaN"

text \<open>
  The quotient by a non-zero divisor. A zero divisor would give an infinity or
  \<^verbatim>\<open>NaN\<close> in the language; no infinity is represented here, and the only division of
  the program (in \<^verbatim>\<open>currencyToPoints\<close>) sits behind the test that the divisor is not
  \<open>\<le> 0\<close>.
\<close>

fun js_div :: "number \<Rightarrow> number \<Rightarrow> number" where
  "js_div (Fin a) (Fin b) = (if b = 0 then NaN else Fin (roundToDouble (a / b)))"
| "js_div _ _ = NaN"

fun js_le :: "number \<Rightarrow> number \<Rightarrow> bool" where
  "js_le (Fin a) (Fin b) = (a \<le> b)"
| "js_le _ _ = False"

fun js_lt :: "number \<Rightarrow> number \<Rightarrow> bool" where
  "js_lt (Fin a) (Fin b) = (a < b)"
| "js_lt _ _ = False"

fun js_gt :: "number \<Rightarrow> number \<Rightarrow> bool" where
  "js_gt (Fin a) (Fin b) = (a > b)"
| "js_gt _ _ = False"

fun Math_floor :: "number \<Rightarrow> number" where
  "Math_floor (Fin a) = Fin (of_int \<lfloor>a\<rfloor>)"
| "Math_floor NaN = NaN"

fun Math_max :: "number \<Rightarrow> number \<Rightarrow> number" where
  "Math_max (Fin a) (Fin b) = Fin (max a b)"
| "Math_max _ _ = NaN"

fun Number_isInteger :: "number \<Rightarrow> bool" where
  "Number_isInteger (Fin a) = (of_int \<lfloor>a\<rfloor> = a)"
| "Number_isInteger NaN = False"

text \<open>
  Values of type \<^verbatim>\<open>unknown\<close> (custom fields, the value of a custom object) are JSON
  values, or \<^verbatim>\<open>undefined\<close> for a property that is not there. An object is the list of
  its properties, with distinct keys.
\<close>

datatype jsval =
    JUndefined
  | JNull
  | JBool bool
  | JNum number
  | JStr string
  | JArr "jsval list"
  | JObj "(string \<times> jsval) list"

text \<open>\<^verbatim>\<open>fields[key]\<close> on a \<^verbatim>\<open>Record<string, unknown>\<close>.\<close>

definition getProp :: "(string \<times> jsval) list \<Rightarrow> string \<Rightarrow> jsval" where
  "getProp fields k = (case map_of fields k of None \<Rightarrow> JUndefined | Some v \<Rightarrow> v)"

text \<open>
  \<^verbatim>\<open>Number(value)\<close>. The conversion of a string or of an array goes through the
  language's parser of numeric literals, which is no part of this repository: it is the
  parameter \<open>strToNum\<close>. A plain object converts to \<^verbatim>\<open>NaN\<close>.
\<close>

fun Number :: "(jsval \<Rightarrow> number) \<Rightarrow> jsval \<Rightarrow> number" where
  "Number strToNum JUndefined = NaN"
| "Number strToNum JNull = Fin 0"
| "Number strToNum (JBool b) = (if b then Fin 1 else Fin 0)"
| "Number strToNum (JNum n) = n"
| "Number strToNum (JStr s) = strToNum (JStr s)"
| "Number strToNum (JArr xs) = strToNum (JArr xs)"
| "Number strToNum (JObj kvs) = NaN"

text \<open>
  \<^verbatim>\<open>String.prototype.toUpperCase\<close> follows the Unicode case mappings and is no part
  of this repository: every function that calls it takes it as the parameter
  \<open>toUpperCase\<close>.
\<close>

subsection \<open>Errors\<close>

text \<open>
  What a rejected promise or a thrown exception carries: a fetch of a resource the
  platform does not have, a customer write whose version is stale, and the
  \<^verbatim>\<open>TypeError\<close> of a property read on \<^verbatim>\<open>null\<close> or \<^verbatim>\<open>undefined\<close>.
\<close>

datatype error = NotFound | ConcurrentModification | TypeError

subsection \<open>Conversion rates\<close>

record ConversionRateRow =
  currency :: string
  currencyCentAmount :: number
  pointAmount :: number

definition LOYALTY_CONTAINER :: string where
  "LOYALTY_CONTAINER = ''LOYALTY_CONTAINER''"

definition CONVERSION_RATES_KEY :: string where
  "CONVERSION_RATES_KEY = ''CONVERSION_RATES''"

definition AVAILABLE_POINTS_KEY :: string where
  "AVAILABLE_POINTS_KEY = ''availablePoints''"

definition CUSTOMER_LOYALTY_CUSTOM_TYPE :: string where
  "CUSTOMER_LOYALTY_CUSTOM_TYPE = ''additional-customer-info''"

definition CANCELLED_STATE_KEY :: string where
  "CANCELLED_STATE_KEY = ''Cancelled''"

text \<open>
  The test of one row in \<^verbatim>\<open>rows.every(...)\<close>: reading \<^verbatim>\<open>r.currency\<close> throws on
  \<^verbatim>\<open>null\<close> and \<^verbatim>\<open>undefined\<close>; a primitive or an array has none of the three
  properties; an object passes when the three have the right \<^verbatim>\<open>typeof\<close>. A row that
  passes is returned as the \<open>ConversionRateRow\<close> it is cast to.
\<close>

fun rowShape :: "jsval \<Rightarrow> error + ConversionRateRow option" where
  "rowShape JUndefined = Inl TypeError"
| "rowShape JNull = Inl TypeError"
| "rowShape (JObj kvs) =
     (case getProp kvs ''currency'' of
        JStr c \<Rightarrow>
          (case getProp kvs ''currencyCentAmount'' of
             JNum a \<Rightarrow>
               (case getProp kvs ''pointAmount'' of
                  JNum p \<Rightarrow>
                    Inr (Some \<lparr>currency = c, currencyCentAmount = a, pointAmount = p\<rparr>)
                | _ \<Rightarrow> Inr None)
           | _ \<Rightarrow> Inr None)
      | _ \<Rightarrow> Inr None)"
| "rowShape _ = Inr None"

text \<open>
  \<^verbatim>\<open>rows.every\<close> stops at the first row that fails the test (\<open>Inr None\<close>) and
  propagates an exception of the test.
\<close>

fun everyRow :: "jsval list \<Rightarrow> error + ConversionRateRow list option" where
  "everyRow [] = Inr (Some [])"
| "everyRow (r # rs) =
     (case rowShape r of
        Inl e \<Rightarrow> Inl e
      | Inr None \<Rightarrow> Inr None
      | Inr (Some row) \<Rightarrow>
          (case everyRow rs of
             Inl e \<Rightarrow> Inl e
           | Inr None \<Rightarrow> Inr None
           | Inr (Some rows) \<Rightarrow> Inr (Some (row # rows))))"

subsection \<open>The platform's resources\<close>

text \<open>
  The parts of the platform's resources that the program reads. An optional property
  is an \<open>option\<close>; a chain of optional reads such as \<^verbatim>\<open>order.cart?.id\<close>,
  \<^verbatim>\<open>order.discountOnTotalPrice?.includedDiscounts\<close> or \<^verbatim>\<open>customer.custom?.type?.id\<close>
  is one optional field, \<open>None\<close> when any link of the chain is missing. A
  \<open>centAmount\<close> is \<open>Some n\<close> exactly when \<^verbatim>\<open>typeof centAmount === 'number'\<close>.
\<close>

record Money =
  centAmount :: "number option"
  currencyCode :: "string option"
  money_currency :: "string option"

record Payment =
  amountPlanned :: "Money option"

record Reference =
  typeId :: "string option"
  ref_id :: "string option"

record DiscountValue =
  value_type :: "string option"
  money :: "Money option"

record DirectDiscount =
  dd_id :: "string option"
  dd_value :: "DiscountValue option"

record Portion =
  discount :: "Reference option"
  discountedAmount :: "Money option"

record Order =
  customerId :: "string option"
  cart_id :: "string option"
  payments :: "Reference list option"
  directDiscounts :: "DirectDiscount list option"
  includedDiscounts :: "Portion list option"

record CartDiscount =
  cd_fields :: "(string \<times> jsval) list option"

record Customer =
  version :: int
  custom_type_id :: "string option"
  custom_type_obj_key :: "string option"
  custom_fields :: "(string \<times> jsval) list option"

datatype CustomerUpdateAction =
    SetCustomType string
  | SetCustomField string number

record CustomerUpdate =
  upd_customer :: string
  upd_version :: int
  upd_actions :: "CustomerUpdateAction list"

text \<open>
  The world behind \<^verbatim>\<open>apiRoot\<close>: the resources by id, the custom objects by container
  and key (each by its \<^verbatim>\<open>value\<close>), and the log \<open>posts\<close> of the customer writes the
  program has sent. \<open>conflicts\<close> is the number of coming customer writes that lose a
  race: a concurrent writer changes the customer between the program's read and its write.

  \<open>redemptionRates\<close> is what \<^verbatim>\<open>getRedemptionRates(apiRoot)\<close> resolves to or rejects
  with. The controller imports that function from the service, and the service file at
  hand does not define it, so its result is a component of the world: what is proved of
  the handlers holds for every table that the call may return. Which table the
  specification lets it return is written down further below, as \<open>getRedemptionRates\<close>.
\<close>

record world =
  orders :: "string \<rightharpoonup> Order"
  paymentsById :: "string \<rightharpoonup> Payment"
  cartDiscounts :: "string \<rightharpoonup> CartDiscount"
  customers :: "string \<rightharpoonup> Customer"
  customObjects :: "string \<times> string \<rightharpoonup> jsval"
  redemptionRates :: "error + ConversionRateRow list"
  conflicts :: nat
  posts :: "CustomerUpdate list"

text \<open>\<^verbatim>\<open>.withId({ ID: id }).get().execute()\<close>: rejects when the resource is not there.\<close>

definition getById :: "('k \<rightharpoonup> 'a) \<Rightarrow> 'k \<Rightarrow> error + 'a" where
  "getById m i = (case m i of None \<Rightarrow> Inl NotFound | Some x \<Rightarrow> Inr x)"

text \<open>
  What an accepted update action does to the stored customer: \<^verbatim>\<open>setCustomType\<close> attaches
  the type (known here by its key) and starts from no custom fields, \<^verbatim>\<open>setCustomField\<close>
  sets one field.
\<close>

fun applyAction :: "CustomerUpdateAction \<Rightarrow> Customer \<Rightarrow> Customer" where
  "applyAction (SetCustomType k) c =
     c\<lparr>custom_type_id := Some k, custom_type_obj_key := Some k, custom_fields := Some []\<rparr>"
| "applyAction (SetCustomField n v) c =
     c\<lparr>custom_fields :=
         Some ((n, JNum v) #
           filter (\<lambda>kv. fst kv \<noteq> n) (case custom_fields c of None \<Rightarrow> [] | Some f \<Rightarrow> f))\<rparr>"

text \<open>
  \<^verbatim>\<open>customers().withId({ ID }).post({ body: { version, actions } }).execute()\<close>. The
  request is logged. When a race is lost the concurrent writer has raised the customer's
  version first. The platform applies the actions when the version sent is the
  customer's current one, and rejects with a version conflict otherwise.
\<close>

definition customersPost ::
  "string \<Rightarrow> int \<Rightarrow> CustomerUpdateAction list \<Rightarrow> world \<Rightarrow> (error + unit) \<times> world" where
  "customersPost cid ver actions w =
     (let w1 = (if 0 < conflicts w
                then w\<lparr>conflicts := conflicts w - 1,
                       customers := (case customers w cid of
                                       None \<Rightarrow> customers w
                                     | Some c \<Rightarrow> (customers w)(cid \<mapsto> c\<lparr>version := version c + 1\<rparr>))\<rparr>
                else w);
          w2 = w1\<lparr>posts := posts w1 @
                 [\<lparr>upd_customer = cid, upd_version = ver, upd_actions = actions\<rparr>]\<rparr>
      in case customers w2 cid of
           None \<Rightarrow> (Inl NotFound, w2)
         | Some c \<Rightarrow>
             if version c \<noteq> ver then (Inl ConcurrentModification, w2)
             else (Inr (),
                   w2\<lparr>customers := (customers w2)(cid \<mapsto>
                         (fold applyAction actions c)
                           \<lparr>version := version c + int (length actions)\<rparr>)\<rparr>))"

subsection \<open>The service\<close>

definition getConversionRates :: "world \<Rightarrow> error + ConversionRateRow list" where
  "getConversionRates w =
     (case getById (customObjects w) (LOYALTY_CONTAINER, CONVERSION_RATES_KEY) of
        Inl e \<Rightarrow> Inl e
      | Inr v \<Rightarrow>
          (case v of
             JArr rows \<Rightarrow>
               (case everyRow rows of
                  Inl e \<Rightarrow> Inl e
                | Inr None \<Rightarrow> Inr []
                | Inr (Some rs) \<Rightarrow> Inr rs)
           | _ \<Rightarrow> Inr []))"

definition currencyToPoints ::
  "(string \<Rightarrow> string) \<Rightarrow> number \<Rightarrow> string \<Rightarrow> ConversionRateRow list \<Rightarrow> number" where
  "currencyToPoints toUpperCase amount code conversionRates =
     (case find (\<lambda>r. toUpperCase (currency r) = toUpperCase code) conversionRates of
        None \<Rightarrow> Fin 0
      | Some rate \<Rightarrow>
          if js_le (currencyCentAmount rate) (Fin 0) then Fin 0
          else Math_floor (js_mul (js_div amount (currencyCentAmount rate)) (pointAmount rate)))"

text \<open>\<^verbatim>\<open>amount.currencyCode ?? amount.currency\<close>\<close>

definition currencyOf :: "Money \<Rightarrow> string option" where
  "currencyOf m = (case currencyCode m of Some c \<Rightarrow> Some c | None \<Rightarrow> money_currency m)"

text \<open>
  The block that the source repeats for a payment's planned amount and for a portion's
  discounted amount: when the amount is there with a numeric \<^verbatim>\<open>centAmount\<close> and a
  non-empty currency, its points are added to the running total.
\<close>

definition addAmount ::
  "(string \<Rightarrow> string) \<Rightarrow> Money option \<Rightarrow> ConversionRateRow list \<Rightarrow> number \<Rightarrow> number" where
  "addAmount toUpperCase amount conversionRates totalPoints =
     (case amount of
        None \<Rightarrow> totalPoints
      | Some m \<Rightarrow>
          (case centAmount m of
             None \<Rightarrow> totalPoints
           | Some n \<Rightarrow>
               (case currencyOf m of
                  None \<Rightarrow> totalPoints
                | Some c \<Rightarrow>
                    if c = [] then totalPoints
                    else js_add totalPoints (currencyToPoints toUpperCase n c conversionRates))))"

text \<open>One turn of the loop of \<^verbatim>\<open>getPointsFromPayments\<close>, on the running total.\<close>

definition paymentStep ::
  "(string \<Rightarrow> string) \<Rightarrow> world \<Rightarrow> ConversionRateRow list \<Rightarrow> Reference \<Rightarrow> number \<Rightarrow> number" where
  "paymentStep toUpperCase w conversionRates r totalPoints =
     (case ref_id r of
        None \<Rightarrow> totalPoints
      | Some i \<Rightarrow>
          if i = [] then totalPoints
          else (case getById (paymentsById w) i of
                  Inl e \<Rightarrow> totalPoints
                | Inr payment \<Rightarrow>
                    addAmount toUpperCase (amountPlanned payment) conversionRates totalPoints))"

fun paymentsLoop ::
  "(string \<Rightarrow> string) \<Rightarrow> world \<Rightarrow> ConversionRateRow list \<Rightarrow> Reference list \<Rightarrow> number \<Rightarrow> number" where
  "paymentsLoop toUpperCase w conversionRates [] totalPoints = totalPoints"
| "paymentsLoop toUpperCase w conversionRates (r # rs) totalPoints =
     paymentsLoop toUpperCase w conversionRates rs
       (paymentStep toUpperCase w conversionRates r totalPoints)"

definition getPointsFromPayments ::
  "(string \<Rightarrow> string) \<Rightarrow> Order \<Rightarrow> world \<Rightarrow> ConversionRateRow list \<Rightarrow> number" where
  "getPointsFromPayments toUpperCase order w conversionRates =
     paymentsLoop toUpperCase w conversionRates
       (case payments order of None \<Rightarrow> [] | Some ps \<Rightarrow> ps) (Fin 0)"

text \<open>\<^verbatim>\<open>a ?? b\<close> on values.\<close>

definition nullish :: "jsval \<Rightarrow> jsval \<Rightarrow> jsval" where
  "nullish a b = (if a = JUndefined \<or> a = JNull then b else a)"

definition isPointRedemptionDiscount :: "CartDiscount \<Rightarrow> string option \<Rightarrow> bool" where
  "isPointRedemptionDiscount cartDiscount orderCartId =
     (case orderCartId of
        None \<Rightarrow> False
      | Some cartId \<Rightarrow>
          if cartId = [] then False
          else
            (let fields = (case cd_fields cartDiscount of None \<Rightarrow> [] | Some f \<Rightarrow> f);
                 isRedemption =
                   (getProp fields ''isPointRedemption'' = JBool True \<or>
                    getProp fields ''isPointRedemtion'' = JBool True)
             in if \<not> isRedemption then False
                else nullish (getProp fields ''referenceCart'')
                       (getProp fields ''referenceCartId'') = JStr cartId))"

definition getDiscountCentAmount :: "DiscountValue \<Rightarrow> number" where
  "getDiscountCentAmount v =
     (if value_type v = Some ''absolute'' \<and> money v \<noteq> None
      then (case money v of
              None \<Rightarrow> Fin 0
            | Some m \<Rightarrow> (case centAmount m of None \<Rightarrow> Fin 0 | Some n \<Rightarrow> n))
      else Fin 0)"

text \<open>
  The \<^verbatim>\<open>try\<close> block of a portion of the included discounts: fetch the cart discount,
  test it, add the portion's discounted amount. A failed fetch is caught and adds nothing.
\<close>

definition addRedemption ::
  "(string \<Rightarrow> string) \<Rightarrow> world \<Rightarrow> ConversionRateRow list \<Rightarrow> string option \<Rightarrow> string \<Rightarrow> Money option \<Rightarrow>
     number \<Rightarrow> number" where
  "addRedemption toUpperCase w conversionRates orderCartId discountId amount totalPoints =
     (case getById (cartDiscounts w) discountId of
        Inl e \<Rightarrow> totalPoints
      | Inr cartDiscount \<Rightarrow>
          if isPointRedemptionDiscount cartDiscount orderCartId
          then addAmount toUpperCase amount conversionRates totalPoints
          else totalPoints)"

text \<open>One turn of the loop over \<^verbatim>\<open>includedDiscounts\<close>.\<close>

definition portionStep ::
  "(string \<Rightarrow> string) \<Rightarrow> world \<Rightarrow> ConversionRateRow list \<Rightarrow> string option \<Rightarrow> Portion \<Rightarrow> number \<Rightarrow> number" where
  "portionStep toUpperCase w conversionRates orderCartId portion totalPoints =
     (case discount portion of
        None \<Rightarrow> totalPoints
      | Some discountRef \<Rightarrow>
          (case ref_id discountRef of
             None \<Rightarrow> totalPoints
           | Some discountId \<Rightarrow>
               if discountId = [] then totalPoints
               else
                 (let t1 = (if typeId discountRef = Some ''cart-discount''
                            then addRedemption toUpperCase w conversionRates orderCartId discountId
                                   (discountedAmount portion) totalPoints
                            else totalPoints)
                  in if typeId discountRef = Some ''direct-discount''
                     then addRedemption toUpperCase w conversionRates orderCartId discountId
                            (discountedAmount portion) t1
                     else t1)))"

fun includedLoop ::
  "(string \<Rightarrow> string) \<Rightarrow> world \<Rightarrow> ConversionRateRow list \<Rightarrow> string option \<Rightarrow> Portion list \<Rightarrow> number \<Rightarrow> number" where
  "includedLoop toUpperCase w conversionRates orderCartId [] totalPoints = totalPoints"
| "includedLoop toUpperCase w conversionRates orderCartId (p # ps) totalPoints =
     includedLoop toUpperCase w conversionRates orderCartId ps
       (portionStep toUpperCase w conversionRates orderCartId p totalPoints)"

text \<open>One turn of the loop over \<^verbatim>\<open>directDiscounts\<close> (the fallback).\<close>

definition directStep ::
  "(string \<Rightarrow> string) \<Rightarrow> world \<Rightarrow> ConversionRateRow list \<Rightarrow> string option \<Rightarrow> DirectDiscount \<Rightarrow> number \<Rightarrow> number" where
  "directStep toUpperCase w conversionRates orderCartId dd totalPoints =
     (let amount = getDiscountCentAmount
                     (case dd_value dd of
                        None \<Rightarrow> \<lparr>value_type = None, money = None\<rparr>
                      | Some v \<Rightarrow> v)
      in case dd_id dd of
           None \<Rightarrow> totalPoints
         | Some i \<Rightarrow>
             if js_gt amount (Fin 0) \<and> i \<noteq> []
             then (case getById (cartDiscounts w) i of
                     Inl e \<Rightarrow> totalPoints
                   | Inr cartDiscount \<Rightarrow>
                       if isPointRedemptionDiscount cartDiscount orderCartId
                       then (case (case dd_value dd of
                                     None \<Rightarrow> None
                                   | Some v \<Rightarrow>
                                       (case money v of
                                          None \<Rightarrow> None
                                        | Some m \<Rightarrow> currencyOf m)) of
                               None \<Rightarrow> totalPoints
                             | Some c \<Rightarrow>
                                 if c = [] then totalPoints
                                 else js_add totalPoints
                                        (currencyToPoints toUpperCase amount c conversionRates))
                       else totalPoints)
             else totalPoints)"

fun directLoop ::
  "(string \<Rightarrow> string) \<Rightarrow> world \<Rightarrow> ConversionRateRow list \<Rightarrow> string option \<Rightarrow> DirectDiscount list \<Rightarrow> number \<Rightarrow>
     number" where
  "directLoop toUpperCase w conversionRates orderCartId [] totalPoints = totalPoints"
| "directLoop toUpperCase w conversionRates orderCartId (d # ds) totalPoints =
     directLoop toUpperCase w conversionRates orderCartId ds
       (directStep toUpperCase w conversionRates orderCartId d totalPoints)"

definition getPointRedemptionPointsToDeduct ::
  "(string \<Rightarrow> string) \<Rightarrow> Order \<Rightarrow> world \<Rightarrow> ConversionRateRow list \<Rightarrow> number" where
  "getPointRedemptionPointsToDeduct toUpperCase order w conversionRates =
     (let orderCartId = cart_id order;
          included = (case includedDiscounts order of None \<Rightarrow> [] | Some ps \<Rightarrow> ps);
          t1 = includedLoop toUpperCase w conversionRates orderCartId included (Fin 0)
      in if length included = 0 \<and>
            0 < (case directDiscounts order of None \<Rightarrow> 0 | Some ds \<Rightarrow> length ds)
         then directLoop toUpperCase w conversionRates orderCartId
                (case directDiscounts order of None \<Rightarrow> [] | Some ds \<Rightarrow> ds) t1
         else t1)"

definition getCurrentAvailablePoints :: "(jsval \<Rightarrow> number) \<Rightarrow> Customer \<Rightarrow> number" where
  "getCurrentAvailablePoints strToNum customer =
     (let v = (case custom_fields customer of
                 None \<Rightarrow> JUndefined
               | Some f \<Rightarrow> getProp f AVAILABLE_POINTS_KEY)
      in if v = JUndefined \<or> v = JNull then Fin 0
         else (let n = Number strToNum v
               in if Number_isInteger n then n else Math_floor n))"

subsection \<open>The order-event handlers\<close>

text \<open>
  A handler returns \<open>Inr ()\<close> when it returns (after the write, or at one of its
  early returns, with the world as it was) and \<open>Inl e\<close> when an awaited call rejects:
  no handler catches. \<^verbatim>\<open>!s\<close> on an optional string is true when the string is missing
  or empty.
\<close>

definition falsy :: "string option \<Rightarrow> bool" where
  "falsy s = (s = None \<or> s = Some [])"

definition handleOrderCreated ::
  "(jsval \<Rightarrow> number) \<Rightarrow> (string \<Rightarrow> string) \<Rightarrow> string \<Rightarrow> world \<Rightarrow> (error + unit) \<times> world" where
  "handleOrderCreated strToNum toUpperCase orderId w =
     (case getById (orders w) orderId of
        Inl e \<Rightarrow> (Inl e, w)
      | Inr order \<Rightarrow>
          (case customerId order of
             None \<Rightarrow> (Inr (), w)
           | Some cid \<Rightarrow>
               if cid = [] then (Inr (), w)
               else
                 (case getConversionRates w of
                    Inl e \<Rightarrow> (Inl e, w)
                  | Inr conversionRates \<Rightarrow>
                      if length conversionRates = 0 then (Inr (), w)
                      else
                        (case redemptionRates w of
                           Inl e \<Rightarrow> (Inl e, w)
                         | Inr redemption \<Rightarrow>
                             (let pointsFromPayments =
                                    getPointsFromPayments toUpperCase order w conversionRates;
                                  pointsToDeduct =
                                    getPointRedemptionPointsToDeduct toUpperCase order w redemption
                              in case getById (customers w) cid of
                                   Inl e \<Rightarrow> (Inl e, w)
                                 | Inr customer \<Rightarrow>
                                     (let currentPoints =
                                            getCurrentAvailablePoints strToNum customer;
                                          newPoints =
                                            Math_max (Fin 0)
                                              (js_sub (js_add currentPoints pointsFromPayments)
                                                 pointsToDeduct);
                                          actions =
                                            (if falsy (custom_type_id customer) \<or>
                                                custom_type_obj_key customer \<noteq>
                                                  Some CUSTOMER_LOYALTY_CUSTOM_TYPE
                                             then [SetCustomType CUSTOMER_LOYALTY_CUSTOM_TYPE]
                                             else []) @
                                            [SetCustomField AVAILABLE_POINTS_KEY newPoints]
                                      in customersPost cid (version customer) actions w))))))"

definition handleOrderCancelled ::
  "(jsval \<Rightarrow> number) \<Rightarrow> (string \<Rightarrow> string) \<Rightarrow> string \<Rightarrow> world \<Rightarrow> (error + unit) \<times> world" where
  "handleOrderCancelled strToNum toUpperCase orderId w =
     (case getById (orders w) orderId of
        Inl e \<Rightarrow> (Inl e, w)
      | Inr order \<Rightarrow>
          (case customerId order of
             None \<Rightarrow> (Inr (), w)
           | Some cid \<Rightarrow>
               if cid = [] then (Inr (), w)
               else
                 (case getConversionRates w of
                    Inl e \<Rightarrow> (Inl e, w)
                  | Inr conversionRates \<Rightarrow>
                      if length conversionRates = 0 then (Inr (), w)
                      else
                        (case redemptionRates w of
                           Inl e \<Rightarrow> (Inl e, w)
                         | Inr redemption \<Rightarrow>
                             (let pointsFromPayments =
                                    getPointsFromPayments toUpperCase order w conversionRates;
                                  pointsToAddBack =
                                    getPointRedemptionPointsToDeduct toUpperCase order w redemption
                              in case getById (customers w) cid of
                                   Inl e \<Rightarrow> (Inl e, w)
                                 | Inr customer \<Rightarrow>
                                     (let currentPoints =
                                            getCurrentAvailablePoints strToNum customer;
                                          newPoints =
                                            Math_max (Fin 0)
                                              (js_add (js_sub currentPoints pointsFromPayments)
                                                 pointsToAddBack);
                                          actions =
                                            (if falsy (custom_type_id customer)
                                             then [SetCustomType CUSTOMER_LOYALTY_CUSTOM_TYPE]
                                             else []) @
                                            [SetCustomField AVAILABLE_POINTS_KEY newPoints]
                                      in customersPost cid (version customer) actions w))))))"

text \<open>
  \<^verbatim>\<open>post\<close>, from the decoded \<^verbatim>\<open>jsonData\<close> on: the checks of the request body and
  the decoding of the Pub/Sub envelope that come before are left out. \<open>order_id\<close> is
  \<^verbatim>\<open>jsonData.order?.id\<close> and \<open>resource_id\<close> is \<^verbatim>\<open>jsonData.resource?.id\<close>. A
  \<^verbatim>\<open>CustomError\<close> thrown by \<^verbatim>\<open>post\<close> is \<open>Thrown\<close> with its status code; whatever a
  handler throws is caught and logged, and the response is 204.
\<close>

record JsonData =
  notificationType :: "string option"
  message_type :: "string option"
  order_id :: "string option"
  resource_id :: "string option"
  orderState :: "string option"

datatype Response = Status nat | Thrown nat

definition post ::
  "(jsval \<Rightarrow> number) \<Rightarrow> (string \<Rightarrow> string) \<Rightarrow> JsonData \<Rightarrow> world \<Rightarrow> Response \<times> world" where
  "post strToNum toUpperCase jsonData w =
     (if notificationType jsonData = Some ''ResourceCreated'' then (Thrown 202, w)
      else
        (case (case order_id jsonData of Some i \<Rightarrow> Some i | None \<Rightarrow> resource_id jsonData) of
           None \<Rightarrow> (Thrown 400, w)
         | Some orderId \<Rightarrow>
             if orderId = [] then (Thrown 400, w)
             else
               (Status 204,
                if message_type jsonData = Some ''OrderCreated''
                then snd (handleOrderCreated strToNum toUpperCase orderId w)
                else if message_type jsonData = Some ''OrderStateChanged''
                then (if \<not> falsy (orderState jsonData)
                      then (if orderState jsonData = Some CANCELLED_STATE_KEY
                            then snd (handleOrderCancelled strToNum toUpperCase orderId w)
                            else w)
                      else w)
                else w)))"

subsection \<open>Reading the log of writes\<close>

text \<open>
  The balances that the logged customer writes set: the values of the
  \<^verbatim>\<open>setCustomField\<close> actions on \<^verbatim>\<open>availablePoints\<close>, in the order sent.
\<close>

fun fieldValue :: "CustomerUpdateAction \<Rightarrow> number list" where
  "fieldValue (SetCustomField n v) = (if n = AVAILABLE_POINTS_KEY then [v] else [])"
| "fieldValue (SetCustomType k) = []"

definition balancesWritten :: "world \<Rightarrow> number list" where
  "balancesWritten w = concat (map (\<lambda>u. concat (map fieldValue (upd_actions u))) (posts w))"

text \<open>The shape of a conversion rate: an object with the three properties, rightly typed.\<close>

fun isStr :: "jsval \<Rightarrow> bool" where
  "isStr (JStr s) = True"
| "isStr _ = False"

fun isNum :: "jsval \<Rightarrow> bool" where
  "isNum (JNum n) = True"
| "isNum _ = False"

fun wellShaped :: "jsval \<Rightarrow> bool" where
  "wellShaped (JObj kvs) =
     (isStr (getProp kvs ''currency'') \<and> isNum (getProp kvs ''currencyCentAmount'') \<and>
      isNum (getProp kvs ''pointAmount''))"
| "wellShaped _ = False"

subsection \<open>The specification's words, for comparison\<close>

text \<open>
  Definitions of this subsection are written from the specification's sentences and not
  from the code; the theorems compare them with the code's functions.

  The specification's \<^verbatim>\<open>rateFor\<close> and \<^verbatim>\<open>pointsFor\<close>: the first rate that
  matches the currency case-insensitively and is usable, and the floor of the converted
  amount under that rate, or 0 without one.
\<close>

definition rateFor_spec ::
  "(string \<Rightarrow> string) \<Rightarrow> string \<Rightarrow> ConversionRateRow list \<Rightarrow> ConversionRateRow option" where
  "rateFor_spec toUpperCase code table =
     find (\<lambda>r. toUpperCase (currency r) = toUpperCase code \<and>
                js_gt (currencyCentAmount r) (Fin 0)) table"

definition pointsFor_spec ::
  "(string \<Rightarrow> string) \<Rightarrow> number \<Rightarrow> string \<Rightarrow> ConversionRateRow list \<Rightarrow> number" where
  "pointsFor_spec toUpperCase amount code table =
     (case rateFor_spec toUpperCase code table of
        None \<Rightarrow> Fin 0
      | Some rate \<Rightarrow>
          Math_floor (js_mul (js_div amount (currencyCentAmount rate)) (pointAmount rate)))"


text \<open>
  The specification's sum over payments: the payment references are deduplicated before
  the loop.
\<close>

definition pointsFromPayments_spec ::
  "(string \<Rightarrow> string) \<Rightarrow> Order \<Rightarrow> world \<Rightarrow> ConversionRateRow list \<Rightarrow> number" where
  "pointsFromPayments_spec toUpperCase order w conversionRates =
     paymentsLoop toUpperCase w conversionRates
       (remdups (case payments order of None \<Rightarrow> [] | Some ps \<Rightarrow> ps)) (Fin 0)"

text \<open>
  The specification's retry of a write that lost a race: the event is processed again,
  from fresh reads, up to \<open>n\<close> more times while the write is rejected with a version
  conflict.
\<close>

fun retryOnConflict ::
  "nat \<Rightarrow> (world \<Rightarrow> (error + unit) \<times> world) \<Rightarrow> world \<Rightarrow> (error + unit) \<times> world" where
  "retryOnConflict 0 handler w = handler w"
| "retryOnConflict (Suc n) handler w =
     (case handler w of
        (Inl ConcurrentModification, w') \<Rightarrow> retryOnConflict n handler w'
      | r \<Rightarrow> r)"

subsection \<open>Concrete tables, orders and worlds\<close>

text \<open>A table whose first rate for USD is unusable and whose second is usable.\<close>

definition unusableThenUsable :: "ConversionRateRow list" where
  "unusableThenUsable =
     [\<lparr>currency = ''USD'', currencyCentAmount = Fin 0, pointAmount = Fin 1\<rparr>,
      \<lparr>currency = ''USD'', currencyCentAmount = Fin 100, pointAmount = Fin 1\<rparr>]"

text \<open>
  The examples hold strings of ASCII characters only. On such a string
  \<^verbatim>\<open>toUpperCase\<close> replaces the letters \<open>a\<close> to \<open>z\<close> by \<open>A\<close> to \<open>Z\<close> and keeps
  every other character: \<open>asciiUpperCase\<close> is the conversion that the examples pass.
\<close>

definition upper_char :: "char \<Rightarrow> char" where
  "upper_char c =
     (let n = (of_char c :: nat) in if 97 \<le> n \<and> n \<le> 122 then char_of (n - 32) else c)"

definition asciiUpperCase :: "string \<Rightarrow> string" where
  "asciiUpperCase s = map upper_char s"

text \<open>
  The examples store no string and no array in \<^verbatim>\<open>availablePoints\<close>, so the conversion
  of strings and arrays to numbers that they pass is never consulted.
\<close>

definition noStringCoercion :: "jsval \<Rightarrow> number" where
  "noStringCoercion v = NaN"

definition usd100 :: ConversionRateRow where
  "usd100 = \<lparr>currency = ''USD'', currencyCentAmount = Fin 100, pointAmount = Fin 1\<rparr>"

definition usd50 :: ConversionRateRow where
  "usd50 = \<lparr>currency = ''USD'', currencyCentAmount = Fin 50, pointAmount = Fin 1\<rparr>"

definition usd100_json :: jsval where
  "usd100_json =
     JObj [(''currency'', JStr ''USD''), (''currencyCentAmount'', JNum (Fin 100)),
           (''pointAmount'', JNum (Fin 1))]"

definition usd :: "rat \<Rightarrow> Money" where
  "usd n = \<lparr>centAmount = Some (Fin n), currencyCode = Some ''USD'', money_currency = None\<rparr>"

text \<open>
  An order of customer \<open>c1\<close> from cart \<open>cart1\<close>, with one payment \<open>p1\<close>, one
  included discount of 200 cents that refers to the cart discount \<open>d1\<close>, and one
  direct discount of 300 cents under the same id.
\<close>

definition order1 :: Order where
  "order1 =
     \<lparr>customerId = Some ''c1'', cart_id = Some ''cart1'',
      payments = Some [\<lparr>typeId = Some ''payment'', ref_id = Some ''p1''\<rparr>],
      directDiscounts =
        Some [\<lparr>dd_id = Some ''d1'',
               dd_value = Some \<lparr>value_type = Some ''absolute'', money = Some (usd 300)\<rparr>\<rparr>],
      includedDiscounts =
        Some [\<lparr>discount = Some \<lparr>typeId = Some ''cart-discount'', ref_id = Some ''d1''\<rparr>,
               discountedAmount = Some (usd 200)\<rparr>]\<rparr>"

text \<open>The same order with the payment \<open>p1\<close> referenced twice.\<close>

definition order2 :: Order where
  "order2 =
     order1\<lparr>payments := Some [\<lparr>typeId = Some ''payment'', ref_id = Some ''p1''\<rparr>,
                              \<lparr>typeId = Some ''payment'', ref_id = Some ''p1''\<rparr>]\<rparr>"

definition customer1 :: Customer where
  "customer1 =
     \<lparr>version = 3, custom_type_id = Some ''type-1'',
      custom_type_obj_key = Some ''additional-customer-info'',
      custom_fields = Some [(''availablePoints'', JNum (Fin 10))]\<rparr>"

text \<open>
  A world with the two orders, the payment \<open>p1\<close> of 500 cents, the redemption
  discount \<open>d1\<close> scoped to \<open>cart1\<close>, the customer \<open>c1\<close> with 10 points, the
  conversion table USD 100 to 1, and a redemption table USD 50 to 1.
\<close>

definition world1 :: world where
  "world1 =
     \<lparr>orders = [''o1'' \<mapsto> order1, ''o2'' \<mapsto> order2],
      paymentsById = [''p1'' \<mapsto> \<lparr>amountPlanned = Some (usd 500)\<rparr>],
      cartDiscounts =
        [''d1'' \<mapsto> \<lparr>cd_fields = Some [(''isPointRedemtion'', JBool True),
                                      (''referenceCart'', JStr ''cart1'')]\<rparr>],
      customers = [''c1'' \<mapsto> customer1],
      customObjects = [(''LOYALTY_CONTAINER'', ''CONVERSION_RATES'') \<mapsto> JArr [usd100_json]],
      redemptionRates = Inr [usd50],
      conflicts = 0,
      posts = []\<rparr>"

text \<open>
  Variants of the world: the customer \<open>c1\<close> with a stored balance of \<open>-5\<close>; a
  world in which the next customer write loses a race; a world whose conversion table is
  the empty array; and the decoded \<^verbatim>\<open>OrderCreated\<close> message for the order \<open>o1\<close>.
\<close>

definition customer_negative :: Customer where
  "customer_negative = customer1\<lparr>custom_fields := Some [(''availablePoints'', JNum (Fin (- 5)))]\<rparr>"

definition world_negative :: world where
  "world_negative = world1\<lparr>customers := [''c1'' \<mapsto> customer_negative]\<rparr>"

definition world_race :: world where
  "world_race = world1\<lparr>conflicts := 1\<rparr>"


definition orderCreated_o1 :: JsonData where
  "orderCreated_o1 =
     \<lparr>notificationType = Some ''Message'', message_type = Some ''OrderCreated'',
      order_id = Some ''o1'', resource_id = None, orderState = None\<rparr>"


text \<open>
  A second cart discount \<open>d2\<close>, flagged as a redemption and scoped to another cart
  \<open>cart7\<close>; an order of \<open>cart1\<close> whose included discounts are a portion of 200 cents
  under \<open>d1\<close> and a portion of 700 cents under \<open>d2\<close>; and an order of \<open>cart1\<close>
  without included discounts, with a direct discount of 300 cents under \<open>d1\<close> and one of
  700 cents under \<open>d2\<close>.
\<close>

definition discount2 :: CartDiscount where
  "discount2 =
     \<lparr>cd_fields = Some [(''isPointRedemption'', JBool True),
                        (''referenceCart'', JStr ''cart7'')]\<rparr>"

definition world2 :: world where
  "world2 = world1\<lparr>cartDiscounts := (cartDiscounts world1)(''d2'' \<mapsto> discount2)\<rparr>"

definition portion1 :: Portion where
  "portion1 =
     \<lparr>discount = Some \<lparr>typeId = Some ''cart-discount'', ref_id = Some ''d1''\<rparr>,
      discountedAmount = Some (usd 200)\<rparr>"

definition portion2 :: Portion where
  "portion2 =
     \<lparr>discount = Some \<lparr>typeId = Some ''cart-discount'', ref_id = Some ''d2''\<rparr>,
      discountedAmount = Some (usd 700)\<rparr>"

definition direct1 :: DirectDiscount where
  "direct1 =
     \<lparr>dd_id = Some ''d1'',
      dd_value = Some \<lparr>value_type = Some ''absolute'', money = Some (usd 300)\<rparr>\<rparr>"

definition direct2 :: DirectDiscount where
  "direct2 =
     \<lparr>dd_id = Some ''d2'',
      dd_value = Some \<lparr>value_type = Some ''absolute'', money = Some (usd 700)\<rparr>\<rparr>"

definition order3 :: Order where
  "order3 = order1\<lparr>includedDiscounts := Some [portion1, portion2]\<rparr>"

definition order4 :: Order where
  "order4 = order1\<lparr>includedDiscounts := None, directDiscounts := Some [direct1, direct2]\<rparr>"

section \<open>Properties\<close>

subsection \<open>Helper facts\<close>

lemma find_first_match:
  "\<forall>r \<in> set pre. \<not> P r \<Longrightarrow> P x \<Longrightarrow> find P (pre @ x # rest) = Some x"
  by (induction pre) auto

lemma find_no_match: "\<forall>r \<in> set xs. \<not> P r \<Longrightarrow> find P xs = None"
  by (induction xs) auto

lemma rowShape_not_null:
  "r \<noteq> JNull \<Longrightarrow> r \<noteq> JUndefined \<Longrightarrow> \<exists>x. rowShape r = Inr x"
  by (cases r) (auto split: jsval.splits)

lemma rowShape_bad:
  "r \<noteq> JNull \<Longrightarrow> r \<noteq> JUndefined \<Longrightarrow> \<not> wellShaped r \<Longrightarrow> rowShape r = Inr None"
  by (cases r) (auto split: jsval.splits)

lemma everyRow_bad:
  "\<forall>r \<in> set rows. r \<noteq> JNull \<and> r \<noteq> JUndefined \<Longrightarrow> \<exists>r \<in> set rows. \<not> wellShaped r
   \<Longrightarrow> everyRow rows = Inr None"
proof (induction rows)
  case Nil
  then show ?case by simp
next
  case (Cons r rows)
  from Cons.prems(1) obtain x where x: "rowShape r = Inr x"
    using rowShape_not_null [of r] by auto
  show ?case
  proof (cases x)
    case None
    with x show ?thesis by simp
  next
    case (Some row)
    have "wellShaped r"
    proof (rule ccontr)
      assume "\<not> wellShaped r"
      with Cons.prems(1) have "rowShape r = Inr None" by (simp add: rowShape_bad)
      with x Some show False by simp
    qed
    with Cons.prems have "\<exists>r \<in> set rows. \<not> wellShaped r" by auto
    moreover from Cons.prems(1) have "\<forall>r \<in> set rows. r \<noteq> JNull \<and> r \<noteq> JUndefined" by simp
    ultimately have "everyRow rows = Inr None" by (rule Cons.IH [rotated])
    with x Some show ?thesis by simp
  qed
qed

lemma read_number:
  "(if Number_isInteger (Fin q) then Fin q else Math_floor (Fin q)) = Fin (of_int \<lfloor>q\<rfloor>)"
  by auto

lemma isPointRedemptionDiscount_None [simp]: "isPointRedemptionDiscount cd None = False"
  by (simp add: isPointRedemptionDiscount_def)

lemma isPointRedemptionDiscount_empty [simp]: "isPointRedemptionDiscount cd (Some []) = False"
  by (simp add: isPointRedemptionDiscount_def)

lemma includedLoop_none:
  "\<forall>i cd. cartDiscounts w i = Some cd \<longrightarrow> \<not> isPointRedemptionDiscount cd oc
   \<Longrightarrow> includedLoop up w rates oc ps t = t"
  by (induction ps arbitrary: t)
     (auto simp: portionStep_def addRedemption_def getById_def split: option.splits)

lemma directLoop_none:
  "\<forall>i cd. cartDiscounts w i = Some cd \<longrightarrow> \<not> isPointRedemptionDiscount cd oc
   \<Longrightarrow> directLoop up w rates oc ds t = t"
  by (induction ds arbitrary: t)
     (auto simp: directStep_def getById_def Let_def split: option.splits)

lemma portionStep_not_qualifying:
  "\<forall>ref i cd. discount p = Some ref \<and> ref_id ref = Some i \<and> cartDiscounts w i = Some cd
       \<longrightarrow> \<not> isPointRedemptionDiscount cd oc
   \<Longrightarrow> portionStep up w rates oc p t = t"
  by (auto simp: portionStep_def addRedemption_def getById_def split: option.splits)

lemma directStep_not_qualifying:
  "\<forall>i cd. dd_id d = Some i \<and> cartDiscounts w i = Some cd
       \<longrightarrow> \<not> isPointRedemptionDiscount cd oc
   \<Longrightarrow> directStep up w rates oc d t = t"
  by (auto simp: directStep_def getById_def Let_def split: option.splits)

lemma includedLoop_append:
  "includedLoop up w rates oc (xs @ ys) t =
     includedLoop up w rates oc ys (includedLoop up w rates oc xs t)"
  by (induction xs arbitrary: t) auto

lemma directLoop_append:
  "directLoop up w rates oc (xs @ ys) t =
     directLoop up w rates oc ys (directLoop up w rates oc xs t)"
  by (induction xs arbitrary: t) auto

lemma paymentsLoop_append:
  "paymentsLoop up w rates (xs @ ys) t = paymentsLoop up w rates ys (paymentsLoop up w rates xs t)"
  by (induction xs arbitrary: t) auto

lemma posts_customersPost:
  "posts (snd (customersPost cid ver acts w)) =
     posts w @ [\<lparr>upd_customer = cid, upd_version = ver, upd_actions = acts\<rparr>]"
  by (simp add: customersPost_def Let_def split: option.splits)

lemma balancesWritten_customersPost:
  "balancesWritten (snd (customersPost cid ver acts w)) =
     balancesWritten w @ concat (map fieldValue acts)"
  by (simp add: balancesWritten_def posts_customersPost)

lemma customersPost_conflict:
  "0 < conflicts w \<Longrightarrow> customers w cid = Some c \<Longrightarrow>
   fst (customersPost cid (version c) acts w) = Inl ConcurrentModification"
  by (simp add: customersPost_def Let_def)

lemma handleOrderCreated_applied:
  assumes "orders w oid = Some order" "customerId order = Some cid" "cid \<noteq> []"
    "getConversionRates w = Inr conv" "conv \<noteq> []" "redemptionRates w = Inr red"
    "customers w cid = Some customer"
  shows "handleOrderCreated s up oid w =
     customersPost cid (version customer)
       ((if falsy (custom_type_id customer) \<or>
            custom_type_obj_key customer \<noteq> Some CUSTOMER_LOYALTY_CUSTOM_TYPE
         then [SetCustomType CUSTOMER_LOYALTY_CUSTOM_TYPE] else []) @
        [SetCustomField AVAILABLE_POINTS_KEY
           (Math_max (Fin 0)
              (js_sub (js_add (getCurrentAvailablePoints s customer)
                         (getPointsFromPayments up order w conv))
                 (getPointRedemptionPointsToDeduct up order w red)))]) w"
  using assms by (simp add: handleOrderCreated_def getById_def Let_def)

lemma handleOrderCancelled_applied:
  assumes "orders w oid = Some order" "customerId order = Some cid" "cid \<noteq> []"
    "getConversionRates w = Inr conv" "conv \<noteq> []" "redemptionRates w = Inr red"
    "customers w cid = Some customer"
  shows "handleOrderCancelled s up oid w =
     customersPost cid (version customer)
       ((if falsy (custom_type_id customer)
         then [SetCustomType CUSTOMER_LOYALTY_CUSTOM_TYPE] else []) @
        [SetCustomField AVAILABLE_POINTS_KEY
           (Math_max (Fin 0)
              (js_add (js_sub (getCurrentAvailablePoints s customer)
                         (getPointsFromPayments up order w conv))
                 (getPointRedemptionPointsToDeduct up order w red)))]) w"
  using assms by (simp add: handleOrderCancelled_def getById_def Let_def)

lemma handleOrderCreated_cases:
  "snd (handleOrderCreated s up oid w) = w \<or>
   (\<exists>cid ver b v. handleOrderCreated s up oid w =
      customersPost cid ver
        ((if b then [SetCustomType CUSTOMER_LOYALTY_CUSTOM_TYPE] else []) @
         [SetCustomField AVAILABLE_POINTS_KEY (Math_max (Fin 0) v)]) w)"
proof (cases "orders w oid")
  case None
  then show ?thesis by (simp add: handleOrderCreated_def getById_def)
next
  case ord: (Some order)
  show ?thesis
  proof (cases "falsy (customerId order)")
    case True
    with ord show ?thesis
      by (auto simp: handleOrderCreated_def getById_def falsy_def)
  next
    case False
    then obtain cid where cid: "customerId order = Some cid" "cid \<noteq> []"
      by (auto simp: falsy_def)
    show ?thesis
    proof (cases "getConversionRates w")
      case (Inl e)
      with ord cid show ?thesis by (simp add: handleOrderCreated_def getById_def)
    next
      case conv: (Inr conv)
      show ?thesis
      proof (cases "conv = []")
        case True
        with ord cid conv show ?thesis by (simp add: handleOrderCreated_def getById_def)
      next
        case ne: False
        show ?thesis
        proof (cases "redemptionRates w")
          case (Inl e)
          with ord cid conv ne show ?thesis by (simp add: handleOrderCreated_def getById_def)
        next
          case red: (Inr red)
          show ?thesis
          proof (cases "customers w cid")
            case None
            with ord cid conv ne red show ?thesis
              by (simp add: handleOrderCreated_def getById_def Let_def)
          next
            case (Some customer)
            from handleOrderCreated_applied [OF ord cid conv ne red Some, of s up]
            show ?thesis by blast
          qed
        qed
      qed
    qed
  qed
qed

lemma handleOrderCancelled_cases:
  "snd (handleOrderCancelled s up oid w) = w \<or>
   (\<exists>cid ver b v. handleOrderCancelled s up oid w =
      customersPost cid ver
        ((if b then [SetCustomType CUSTOMER_LOYALTY_CUSTOM_TYPE] else []) @
         [SetCustomField AVAILABLE_POINTS_KEY (Math_max (Fin 0) v)]) w)"
proof (cases "orders w oid")
  case None
  then show ?thesis by (simp add: handleOrderCancelled_def getById_def)
next
  case ord: (Some order)
  show ?thesis
  proof (cases "falsy (customerId order)")
    case True
    with ord show ?thesis
      by (auto simp: handleOrderCancelled_def getById_def falsy_def)
  next
    case False
    then obtain cid where cid: "customerId order = Some cid" "cid \<noteq> []"
      by (auto simp: falsy_def)
    show ?thesis
    proof (cases "getConversionRates w")
      case (Inl e)
      with ord cid show ?thesis by (simp add: handleOrderCancelled_def getById_def)
    next
      case conv: (Inr conv)
      show ?thesis
      proof (cases "conv = []")
        case True
        with ord cid conv show ?thesis by (simp add: handleOrderCancelled_def getById_def)
      next
        case ne: False
        show ?thesis
        proof (cases "redemptionRates w")
          case (Inl e)
          with ord cid conv ne show ?thesis by (simp add: handleOrderCancelled_def getById_def)
        next
          case red: (Inr red)
          show ?thesis
          proof (cases "customers w cid")
            case None
            with ord cid conv ne red show ?thesis
              by (simp add: handleOrderCancelled_def getById_def Let_def)
          next
            case (Some customer)
            from handleOrderCancelled_applied [OF ord cid conv ne red Some, of s up]
            show ?thesis by blast
          qed
        qed
      qed
    qed
  qed
qed

lemma Math_max_not_negative: "\<not> js_lt (Math_max (Fin 0) v) (Fin 0)"
  by (cases v) auto


lemma handleOrderCreated_written:
  "balancesWritten (snd (handleOrderCreated s up oid w)) = balancesWritten w \<or>
   (\<exists>v. balancesWritten (snd (handleOrderCreated s up oid w)) =
          balancesWritten w @ [Math_max (Fin 0) v])"
  using handleOrderCreated_cases [of s up oid w]
  by (auto simp: balancesWritten_customersPost)

lemma handleOrderCancelled_written:
  "balancesWritten (snd (handleOrderCancelled s up oid w)) = balancesWritten w \<or>
   (\<exists>v. balancesWritten (snd (handleOrderCancelled s up oid w)) =
          balancesWritten w @ [Math_max (Fin 0) v])"
  using handleOrderCancelled_cases [of s up oid w]
  by (auto simp: balancesWritten_customersPost)

lemma length_posts_customersPost:
  "length (posts (snd (customersPost cid ver acts w))) = Suc (length (posts w))"
  by (simp add: posts_customersPost)

lemma world1_gates:
  "orders world1 ''o1'' = Some order1 \<and> customerId order1 = Some ''c1'' \<and> ''c1'' \<noteq> [] \<and>
   getConversionRates world1 = Inr [usd100] \<and> [usd100] \<noteq> [] \<and>
   redemptionRates world1 = Inr [usd50] \<and> customers world1 ''c1'' = Some customer1"
  by (simp add: world1_def order1_def getConversionRates_def getById_def usd100_json_def
        usd100_def getProp_def LOYALTY_CONTAINER_def CONVERSION_RATES_KEY_def)

lemma world1_points:
  "getCurrentAvailablePoints noStringCoercion customer1 = Fin 10 \<and>
   getPointsFromPayments asciiUpperCase order1 world1 [usd100] = Fin 5 \<and>
   getPointRedemptionPointsToDeduct asciiUpperCase order1 world1 [usd50] = Fin 4"
  by code_simp

lemma world_race_gates:
  "orders world_race ''o1'' = Some order1 \<and> customerId order1 = Some ''c1'' \<and> ''c1'' \<noteq> [] \<and>
   getConversionRates world_race = Inr [usd100] \<and> [usd100] \<noteq> [] \<and>
   redemptionRates world_race = Inr [usd50] \<and> customers world_race ''c1'' = Some customer1 \<and>
   0 < conflicts world_race"
  by (simp add: world_race_def world1_def order1_def getConversionRates_def getById_def
        usd100_json_def usd100_def getProp_def LOYALTY_CONTAINER_def CONVERSION_RATES_KEY_def)

lemma world_negative_gates:
  "orders world_negative ''o1'' = Some order1 \<and> customerId order1 = Some ''c1'' \<and> ''c1'' \<noteq> [] \<and>
   getConversionRates world_negative = Inr [usd100] \<and> [usd100] \<noteq> [] \<and>
   redemptionRates world_negative = Inr [usd50] \<and>
   customers world_negative ''c1'' = Some customer_negative \<and>
   custom_fields customer_negative = Some [(''availablePoints'', JNum (Fin (- 5)))] \<and>
   getProp [(''availablePoints'', JNum (Fin (- 5)))] AVAILABLE_POINTS_KEY = JNum (Fin (- 5))"
  by (simp add: world_negative_def customer_negative_def world1_def order1_def
        getConversionRates_def getById_def usd100_json_def usd100_def getProp_def
        LOYALTY_CONTAINER_def CONVERSION_RATES_KEY_def AVAILABLE_POINTS_KEY_def)

lemma world_negative_points:
  "getPointsFromPayments asciiUpperCase order1 world_negative [usd100] = Fin 5 \<and>
   getPointRedemptionPointsToDeduct asciiUpperCase order1 world_negative [usd50] = Fin 4"
  by code_simp

subsection \<open>Conversion of an amount\<close>

text \<open>
  C2, as the code has it. \<open>currencyToPoints\<close> takes the first rate whose currency
  matches the code under \<^verbatim>\<open>toUpperCase\<close>, whatever its \<open>currencyCentAmount\<close>. When
  that rate is usable (\<open>currencyCentAmount > 0\<close>) the result is the floor of
  \<open>centAmount / currencyCentAmount * pointAmount\<close> as doubles compute it: the quotient
  rounded to a double, times \<open>pointAmount\<close>, rounded to a double. When the rate is not
  usable, the result is 0 and no later rate of the same currency is looked at. When no
  rate matches the currency the result is 0.
\<close>

theorem currencyToPoints_first_currency_match:
  "((\<forall>r \<in> set pre. up (currency r) \<noteq> up code) \<and>
    up (currency rate) = up code \<and>
    currencyCentAmount rate = Fin a \<and> pointAmount rate = Fin p
    \<longrightarrow> currencyToPoints up (Fin c) code (pre @ rate # rest) =
          (if 0 < a then Fin (of_int \<lfloor>roundToDouble (roundToDouble (c / a) * p)\<rfloor>)
           else Fin 0)) \<and>
   ((\<forall>r \<in> set table. up (currency r) \<noteq> up code)
    \<longrightarrow> currencyToPoints up amount code table = Fin 0)"
proof (intro conjI impI)
  assume h: "(\<forall>r \<in> set pre. up (currency r) \<noteq> up code) \<and>
    up (currency rate) = up code \<and>
    currencyCentAmount rate = Fin a \<and> pointAmount rate = Fin p"
  then have "find (\<lambda>r. up (currency r) = up code) (pre @ rate # rest) = Some rate"
    by (intro find_first_match) auto
  with h show "currencyToPoints up (Fin c) code (pre @ rate # rest) =
          (if 0 < a then Fin (of_int \<lfloor>roundToDouble (roundToDouble (c / a) * p)\<rfloor>)
           else Fin 0)"
    by (simp add: currencyToPoints_def)
next
  assume "\<forall>r \<in> set table. up (currency r) \<noteq> up code"
  then have "find (\<lambda>r. up (currency r) = up code) table = None"
    by (intro find_no_match) auto
  then show "currencyToPoints up amount code table = Fin 0"
    by (simp add: currencyToPoints_def)
qed

text \<open>
  The theorem at 250 cents of \<open>usd\<close>: behind a EUR rate, the rate \<open>Usd\<close> 100 to 1
  gives 2 points, and a table with the EUR rate alone gives 0. At 29 cents under a
  rate of 100 to 100 the doubles give 28 points: the quotient \<open>29 / 100\<close> is rounded
  below \<open>0.29\<close> and the product stays below 29.
\<close>

theorem currencyToPoints_first_currency_match_witness:
  "currencyToPoints asciiUpperCase (Fin 250) ''usd''
     ([\<lparr>currency = ''EUR'', currencyCentAmount = Fin 100, pointAmount = Fin 3\<rparr>] @
       \<lparr>currency = ''Usd'', currencyCentAmount = Fin 100, pointAmount = Fin 1\<rparr> # []) = Fin 2 \<and>
   currencyToPoints asciiUpperCase (Fin 250) ''usd''
     [\<lparr>currency = ''EUR'', currencyCentAmount = Fin 100, pointAmount = Fin 3\<rparr>] = Fin 0 \<and>
   currencyToPoints asciiUpperCase (Fin 29) ''usd''
     ([] @ \<lparr>currency = ''USD'', currencyCentAmount = Fin 100, pointAmount = Fin 100\<rparr> # [])
     = Fin 28"
proof -
  have 1: "\<forall>r \<in> set [\<lparr>currency = ''EUR'', currencyCentAmount = Fin 100, pointAmount = Fin 3\<rparr>].
             asciiUpperCase (currency r) \<noteq> asciiUpperCase ''usd''"
    by code_simp
  have 2: "asciiUpperCase
             (currency \<lparr>currency = ''Usd'', currencyCentAmount = Fin 100, pointAmount = Fin 1\<rparr>)
           = asciiUpperCase ''usd''"
    by code_simp
  have 3: "\<lfloor>roundToDouble (roundToDouble (250 / 100) * 1)\<rfloor> = 2"
    by code_simp
  have 4: "asciiUpperCase
             (currency \<lparr>currency = ''USD'', currencyCentAmount = Fin 100, pointAmount = Fin 100\<rparr>)
           = asciiUpperCase ''usd''"
    by code_simp
  have 5: "\<lfloor>roundToDouble (roundToDouble (29 / 100) * 100)\<rfloor> = 28"
    by code_simp
  from currencyToPoints_first_currency_match
    [where pre = "[\<lparr>currency = ''EUR'', currencyCentAmount = Fin 100, pointAmount = Fin 3\<rparr>]"
       and up = asciiUpperCase and code = "''usd''"
       and rate = "\<lparr>currency = ''Usd'', currencyCentAmount = Fin 100, pointAmount = Fin 1\<rparr>"
       and a = 100 and p = 1 and c = 250 and rest = "[]"
       and table = "[\<lparr>currency = ''EUR'', currencyCentAmount = Fin 100, pointAmount = Fin 3\<rparr>]"
       and amount = "Fin 250"]
    1 2 3
  have a: "currencyToPoints asciiUpperCase (Fin 250) ''usd''
     ([\<lparr>currency = ''EUR'', currencyCentAmount = Fin 100, pointAmount = Fin 3\<rparr>] @
       \<lparr>currency = ''Usd'', currencyCentAmount = Fin 100, pointAmount = Fin 1\<rparr> # []) = Fin 2 \<and>
   currencyToPoints asciiUpperCase (Fin 250) ''usd''
     [\<lparr>currency = ''EUR'', currencyCentAmount = Fin 100, pointAmount = Fin 3\<rparr>] = Fin 0"
    by simp
  from currencyToPoints_first_currency_match
    [where pre = "[]" and up = asciiUpperCase and code = "''usd''"
       and rate = "\<lparr>currency = ''USD'', currencyCentAmount = Fin 100, pointAmount = Fin 100\<rparr>"
       and a = 100 and p = 100 and c = 29 and rest = "[]" and table = "[]"
       and amount = "Fin 29"]
    4 5
  have b: "currencyToPoints asciiUpperCase (Fin 29) ''usd''
     ([] @ \<lparr>currency = ''USD'', currencyCentAmount = Fin 100, pointAmount = Fin 100\<rparr> # [])
     = Fin 28"
    by simp
  from a b show ?thesis by simp
qed

text \<open>
  C2 as the specification states it fails: with an unusable USD rate before a usable
  one, the specification's lookup reaches the usable rate and gives 2 points for 250
  cents, and the code stops at the unusable rate and gives 0.
\<close>

theorem currencyToPoints_later_usable_rate_counterexample:
  "currencyToPoints asciiUpperCase (Fin 250) ''USD'' unusableThenUsable = Fin 0 \<and>
   pointsFor_spec asciiUpperCase (Fin 250) ''USD'' unusableThenUsable = Fin 2"
  by code_simp

subsection \<open>Loading the conversion table\<close>

text \<open>
  C7, as the code has it. \<open>getConversionRates\<close> succeeds with the empty list when the
  custom object is there and its value is not an array, and when the value is an array
  with no \<^verbatim>\<open>null\<close> or \<^verbatim>\<open>undefined\<close> element and with an element that has not the
  shape of a rate (a currency that is no string, a \<open>currencyCentAmount\<close> or a
  \<open>pointAmount\<close> that is no number). When the custom object is not there, the read
  rejects and so does \<open>getConversionRates\<close>.
\<close>

theorem getConversionRates_soft_failures:
  "(customObjects w (LOYALTY_CONTAINER, CONVERSION_RATES_KEY) = Some v \<and> (\<forall>rows. v \<noteq> JArr rows)
      \<longrightarrow> getConversionRates w = Inr []) \<and>
   (customObjects w (LOYALTY_CONTAINER, CONVERSION_RATES_KEY) = Some (JArr rows) \<and>
    (\<forall>r \<in> set rows. r \<noteq> JNull \<and> r \<noteq> JUndefined) \<and> (\<exists>r \<in> set rows. \<not> wellShaped r)
      \<longrightarrow> getConversionRates w = Inr []) \<and>
   (customObjects w (LOYALTY_CONTAINER, CONVERSION_RATES_KEY) = None
      \<longrightarrow> getConversionRates w = Inl NotFound)"
proof (intro conjI impI)
  assume "customObjects w (LOYALTY_CONTAINER, CONVERSION_RATES_KEY) = Some v \<and> (\<forall>rows. v \<noteq> JArr rows)"
  then show "getConversionRates w = Inr []"
    by (cases v) (simp_all add: getConversionRates_def getById_def)
next
  assume h: "customObjects w (LOYALTY_CONTAINER, CONVERSION_RATES_KEY) = Some (JArr rows) \<and>
    (\<forall>r \<in> set rows. r \<noteq> JNull \<and> r \<noteq> JUndefined) \<and> (\<exists>r \<in> set rows. \<not> wellShaped r)"
  then have "everyRow rows = Inr None" by (intro everyRow_bad) auto
  with h show "getConversionRates w = Inr []"
    by (simp add: getConversionRates_def getById_def)
next
  assume "customObjects w (LOYALTY_CONTAINER, CONVERSION_RATES_KEY) = None"
  then show "getConversionRates w = Inl NotFound"
    by (simp add: getConversionRates_def getById_def)
qed

text \<open>
  The theorem at a value that is a string, at an array whose second element is the
  number 3, and at a world without the custom object.
\<close>

theorem getConversionRates_soft_failures_witness:
  "getConversionRates
     (world1\<lparr>customObjects := [(LOYALTY_CONTAINER, CONVERSION_RATES_KEY) \<mapsto> JStr ''none'']\<rparr>)
     = Inr [] \<and>
   getConversionRates
     (world1\<lparr>customObjects :=
        [(LOYALTY_CONTAINER, CONVERSION_RATES_KEY) \<mapsto> JArr [usd100_json, JNum (Fin 3)]]\<rparr>)
     = Inr [] \<and>
   getConversionRates (world1\<lparr>customObjects := Map.empty\<rparr>) = Inl NotFound"
proof -
  have 1: "\<forall>rows. JStr ''none'' \<noteq> JArr rows"
    by simp
  have 2: "(\<forall>r \<in> set [usd100_json, JNum (Fin 3)]. r \<noteq> JNull \<and> r \<noteq> JUndefined) \<and>
           (\<exists>r \<in> set [usd100_json, JNum (Fin 3)]. \<not> wellShaped r)"
    by (simp add: usd100_json_def)
  from getConversionRates_soft_failures
         [where w = "world1\<lparr>customObjects :=
                       [(LOYALTY_CONTAINER, CONVERSION_RATES_KEY) \<mapsto> JStr ''none'']\<rparr>"
            and v = "JStr ''none''" and rows = "[]"] 1
  have a: "getConversionRates
     (world1\<lparr>customObjects := [(LOYALTY_CONTAINER, CONVERSION_RATES_KEY) \<mapsto> JStr ''none'']\<rparr>)
     = Inr []"
    by simp
  from getConversionRates_soft_failures
         [where w = "world1\<lparr>customObjects :=
                [(LOYALTY_CONTAINER, CONVERSION_RATES_KEY) \<mapsto> JArr [usd100_json, JNum (Fin 3)]]\<rparr>"
            and v = JNull and rows = "[usd100_json, JNum (Fin 3)]"] 2
  have b: "getConversionRates
     (world1\<lparr>customObjects :=
        [(LOYALTY_CONTAINER, CONVERSION_RATES_KEY) \<mapsto> JArr [usd100_json, JNum (Fin 3)]]\<rparr>)
     = Inr []"
    by simp
  from getConversionRates_soft_failures
         [where w = "world1\<lparr>customObjects := Map.empty\<rparr>" and v = JNull and rows = "[]"]
  have c: "getConversionRates (world1\<lparr>customObjects := Map.empty\<rparr>) = Inl NotFound"
    by simp
  from a b c show ?thesis by simp
qed

text \<open>
  C7 as the specification states it fails: loading fails when the custom object is
  absent, and it fails with a \<^verbatim>\<open>TypeError\<close> on the stored array \<^verbatim>\<open>[null]\<close>.
\<close>

theorem getConversionRates_fails_counterexample:
  "getConversionRates (world1\<lparr>customObjects := Map.empty\<rparr>) = Inl NotFound \<and>
   getConversionRates
     (world1\<lparr>customObjects :=
        [(LOYALTY_CONTAINER, CONVERSION_RATES_KEY) \<mapsto> JArr [JNull]]\<rparr>) = Inl TypeError"
  by (simp add: getConversionRates_def getById_def)

subsection \<open>Reading the balance\<close>

text \<open>
  C9, as the code has it. \<open>getCurrentAvailablePoints\<close> returns 0 when the
  \<open>availablePoints\<close> field is absent (no custom fields, or the field \<^verbatim>\<open>undefined\<close> or
  \<^verbatim>\<open>null\<close>), and the floor of a stored number, which is the number itself when it is
  an integer.
\<close>

theorem getCurrentAvailablePoints_absent_or_number:
  "((custom_fields customer = None \<or>
     (\<exists>f. custom_fields customer = Some f \<and>
          (getProp f AVAILABLE_POINTS_KEY = JUndefined \<or> getProp f AVAILABLE_POINTS_KEY = JNull)))
      \<longrightarrow> getCurrentAvailablePoints strToNum customer = Fin 0) \<and>
   (custom_fields customer = Some f \<and> getProp f AVAILABLE_POINTS_KEY = JNum (Fin q)
      \<longrightarrow> getCurrentAvailablePoints strToNum customer = Fin (of_int \<lfloor>q\<rfloor>))"
proof (intro conjI impI)
  assume "custom_fields customer = None \<or>
     (\<exists>f. custom_fields customer = Some f \<and>
          (getProp f AVAILABLE_POINTS_KEY = JUndefined \<or> getProp f AVAILABLE_POINTS_KEY = JNull))"
  then show "getCurrentAvailablePoints strToNum customer = Fin 0"
    by (auto simp: getCurrentAvailablePoints_def)
next
  assume "custom_fields customer = Some f \<and> getProp f AVAILABLE_POINTS_KEY = JNum (Fin q)"
  then show "getCurrentAvailablePoints strToNum customer = Fin (of_int \<lfloor>q\<rfloor>)"
    using read_number [of q]
    by (simp add: getCurrentAvailablePoints_def Let_def del: Number_isInteger.simps)
qed

text \<open>
  The theorem at a customer without custom fields, at a customer whose field is
  \<^verbatim>\<open>null\<close>, and at the stored values 3.5 and 10.
\<close>

theorem getCurrentAvailablePoints_absent_or_number_witness:
  "getCurrentAvailablePoints noStringCoercion (customer1\<lparr>custom_fields := None\<rparr>) = Fin 0 \<and>
   getCurrentAvailablePoints noStringCoercion
     (customer1\<lparr>custom_fields := Some [(''availablePoints'', JNull)]\<rparr>) = Fin 0 \<and>
   getCurrentAvailablePoints noStringCoercion
     (customer1\<lparr>custom_fields := Some [(''availablePoints'', JNum (Fin (7 / 2)))]\<rparr>) = Fin 3 \<and>
   getCurrentAvailablePoints noStringCoercion
     (customer1\<lparr>custom_fields := Some [(''availablePoints'', JNum (Fin 10))]\<rparr>) = Fin 10"
proof -
  have fl: "rat_of_int \<lfloor>7 / 2 :: rat\<rfloor> = 3 \<and> rat_of_int \<lfloor>10 :: rat\<rfloor> = 10"
    by code_simp
  have k: "getProp [(''availablePoints'', v)] AVAILABLE_POINTS_KEY = v" for v
    by (simp add: getProp_def AVAILABLE_POINTS_KEY_def)
  from getCurrentAvailablePoints_absent_or_number
         [where customer = "customer1\<lparr>custom_fields := None\<rparr>" and strToNum = noStringCoercion
            and f = "[]" and q = 0]
  have a: "getCurrentAvailablePoints noStringCoercion (customer1\<lparr>custom_fields := None\<rparr>) = Fin 0"
    by simp
  from getCurrentAvailablePoints_absent_or_number
         [where customer = "customer1\<lparr>custom_fields := Some [(''availablePoints'', JNull)]\<rparr>"
            and strToNum = noStringCoercion and f = "[]" and q = 0] k
  have b: "getCurrentAvailablePoints noStringCoercion
     (customer1\<lparr>custom_fields := Some [(''availablePoints'', JNull)]\<rparr>) = Fin 0"
    by simp
  from getCurrentAvailablePoints_absent_or_number
         [where customer = "customer1\<lparr>custom_fields :=
                              Some [(''availablePoints'', JNum (Fin (7 / 2)))]\<rparr>"
            and strToNum = noStringCoercion
            and f = "[(''availablePoints'', JNum (Fin (7 / 2)))]" and q = "7 / 2"] fl k
  have c: "getCurrentAvailablePoints noStringCoercion
     (customer1\<lparr>custom_fields := Some [(''availablePoints'', JNum (Fin (7 / 2)))]\<rparr>) = Fin 3"
    by simp
  from getCurrentAvailablePoints_absent_or_number
         [where customer = "customer1\<lparr>custom_fields :=
                              Some [(''availablePoints'', JNum (Fin 10))]\<rparr>"
            and strToNum = noStringCoercion
            and f = "[(''availablePoints'', JNum (Fin 10))]" and q = 10] fl k
  have d: "getCurrentAvailablePoints noStringCoercion
     (customer1\<lparr>custom_fields := Some [(''availablePoints'', JNum (Fin 10))]\<rparr>) = Fin 10"
    by simp
  from a b c d show ?thesis by simp
qed

text \<open>
  C9 as the specification states it fails: the non-numeric stored values \<^verbatim>\<open>true\<close> and
  \<^verbatim>\<open>{}\<close> are not read as 0 but, through \<^verbatim>\<open>Number\<close>, as 1 and as \<^verbatim>\<open>NaN\<close>.
\<close>

theorem getCurrentAvailablePoints_non_numeric_counterexample:
  "getCurrentAvailablePoints noStringCoercion
     (customer1\<lparr>custom_fields := Some [(''availablePoints'', JBool True)]\<rparr>) = Fin 1 \<and>
   getCurrentAvailablePoints noStringCoercion
     (customer1\<lparr>custom_fields := Some [(''availablePoints'', JObj [])]\<rparr>) = NaN"
  by (simp add: getCurrentAvailablePoints_def getProp_def AVAILABLE_POINTS_KEY_def)

subsection \<open>Redemption discounts\<close>

text \<open>
  C4. A fetched cart discount passes \<open>isPointRedemptionDiscount\<close> only if the order has
  a non-empty cart id, the redemption flag is \<^verbatim>\<open>true\<close> under one of the two spellings,
  and \<open>referenceCart\<close> or \<open>referenceCartId\<close> is that cart id. A discount that does not
  pass contributes nothing, whatever the other discounts of the order do: the turn of
  the loop for its portion, or for its direct discount, leaves the running total as it
  is, and the points to deduct are those of the order's other portions, or other direct
  discounts. When no cart discount of the platform passes the test for the order's cart
  id, the points to deduct are 0; in particular they are 0 when the order has no cart id.
\<close>

theorem redemption_requires_flag_and_cart:
  "(isPointRedemptionDiscount cartDiscount orderCartId \<longrightarrow>
      (\<exists>cartId fields. orderCartId = Some cartId \<and> cartId \<noteq> [] \<and>
         fields = (case cd_fields cartDiscount of None \<Rightarrow> [] | Some f \<Rightarrow> f) \<and>
         (getProp fields ''isPointRedemption'' = JBool True \<or>
          getProp fields ''isPointRedemtion'' = JBool True) \<and>
         (getProp fields ''referenceCart'' = JStr cartId \<or>
          getProp fields ''referenceCartId'' = JStr cartId))) \<and>
   ((\<forall>ref i cd. discount p = Some ref \<and> ref_id ref = Some i \<and> cartDiscounts w i = Some cd
        \<longrightarrow> \<not> isPointRedemptionDiscount cd (cart_id order))
      \<longrightarrow> portionStep up w rates (cart_id order) p t = t \<and>
          (includedDiscounts order = Some (ps @ p # qs)
             \<longrightarrow> getPointRedemptionPointsToDeduct up order w rates =
                   includedLoop up w rates (cart_id order) (ps @ qs) (Fin 0))) \<and>
   ((\<forall>i cd. dd_id d = Some i \<and> cartDiscounts w i = Some cd
        \<longrightarrow> \<not> isPointRedemptionDiscount cd (cart_id order))
      \<longrightarrow> directStep up w rates (cart_id order) d t = t \<and>
          ((includedDiscounts order = None \<or> includedDiscounts order = Some []) \<and>
           directDiscounts order = Some (ds @ d # es)
             \<longrightarrow> getPointRedemptionPointsToDeduct up order w rates =
                   directLoop up w rates (cart_id order) (ds @ es) (Fin 0))) \<and>
   ((\<forall>i cd. cartDiscounts w i = Some cd \<longrightarrow> \<not> isPointRedemptionDiscount cd (cart_id order))
      \<longrightarrow> getPointRedemptionPointsToDeduct up order w rates = Fin 0) \<and>
   (falsy (cart_id order) \<longrightarrow> getPointRedemptionPointsToDeduct up order w rates = Fin 0)"
proof (intro conjI impI)
  assume "isPointRedemptionDiscount cartDiscount orderCartId"
  then show "\<exists>cartId fields. orderCartId = Some cartId \<and> cartId \<noteq> [] \<and>
         fields = (case cd_fields cartDiscount of None \<Rightarrow> [] | Some f \<Rightarrow> f) \<and>
         (getProp fields ''isPointRedemption'' = JBool True \<or>
          getProp fields ''isPointRedemtion'' = JBool True) \<and>
         (getProp fields ''referenceCart'' = JStr cartId \<or>
          getProp fields ''referenceCartId'' = JStr cartId)"
    by (auto simp: isPointRedemptionDiscount_def nullish_def Let_def split: option.splits if_splits)
next
  assume nq: "\<forall>ref i cd. discount p = Some ref \<and> ref_id ref = Some i \<and>
                 cartDiscounts w i = Some cd
               \<longrightarrow> \<not> isPointRedemptionDiscount cd (cart_id order)"
  then show step: "portionStep up w rates (cart_id order) p t = t" for t
    by (rule portionStep_not_qualifying)
  assume inc: "includedDiscounts order = Some (ps @ p # qs)"
  have "includedLoop up w rates (cart_id order) (ps @ p # qs) (Fin 0) =
        includedLoop up w rates (cart_id order) (ps @ qs) (Fin 0)"
    by (simp add: includedLoop_append step)
  with inc show "getPointRedemptionPointsToDeduct up order w rates =
                   includedLoop up w rates (cart_id order) (ps @ qs) (Fin 0)"
    by (simp add: getPointRedemptionPointsToDeduct_def Let_def)
next
  assume nq: "\<forall>i cd. dd_id d = Some i \<and> cartDiscounts w i = Some cd
               \<longrightarrow> \<not> isPointRedemptionDiscount cd (cart_id order)"
  then show step: "directStep up w rates (cart_id order) d t = t" for t
    by (rule directStep_not_qualifying)
  assume dir: "(includedDiscounts order = None \<or> includedDiscounts order = Some []) \<and>
           directDiscounts order = Some (ds @ d # es)"
  have "directLoop up w rates (cart_id order) (ds @ d # es) (Fin 0) =
        directLoop up w rates (cart_id order) (ds @ es) (Fin 0)"
    by (simp add: directLoop_append step)
  with dir show "getPointRedemptionPointsToDeduct up order w rates =
                   directLoop up w rates (cart_id order) (ds @ es) (Fin 0)"
    by (auto simp: getPointRedemptionPointsToDeduct_def Let_def)
next
  assume "\<forall>i cd. cartDiscounts w i = Some cd \<longrightarrow> \<not> isPointRedemptionDiscount cd (cart_id order)"
  then show "getPointRedemptionPointsToDeduct up order w rates = Fin 0"
    by (simp add: getPointRedemptionPointsToDeduct_def Let_def includedLoop_none directLoop_none)
next
  assume "falsy (cart_id order)"
  then have "\<forall>i cd. cartDiscounts w i = Some cd \<longrightarrow> \<not> isPointRedemptionDiscount cd (cart_id order)"
    by (auto simp: falsy_def)
  then show "getPointRedemptionPointsToDeduct up order w rates = Fin 0"
    by (simp add: getPointRedemptionPointsToDeduct_def Let_def includedLoop_none directLoop_none)
qed

text \<open>
  The theorem at the redemption discount \<open>d1\<close> of \<open>cart1\<close>; at the order of \<open>cart1\<close>
  with a portion of 200 cents under \<open>d1\<close> and one of 700 cents under \<open>d2\<close>, which is
  scoped to another cart: only the 2 points of \<open>d1\<close> are deducted; at the order with
  the two direct discounts of 300 and 700 cents: only the 3 points of \<open>d1\<close> are deducted;
  at the order taken from another cart, and at the order without a cart id.
\<close>

theorem redemption_requires_flag_and_cart_witness:
  "(\<exists>cartId fields. Some ''cart1'' = Some cartId \<and> cartId \<noteq> [] \<and>
      fields = (case cd_fields \<lparr>cd_fields = Some [(''isPointRedemtion'', JBool True),
                                      (''referenceCart'', JStr ''cart1'')]\<rparr> of
                  None \<Rightarrow> [] | Some f \<Rightarrow> f) \<and>
      (getProp fields ''isPointRedemption'' = JBool True \<or>
       getProp fields ''isPointRedemtion'' = JBool True) \<and>
      (getProp fields ''referenceCart'' = JStr cartId \<or>
       getProp fields ''referenceCartId'' = JStr cartId)) \<and>
   portionStep asciiUpperCase world2 [usd100] (cart_id order3) portion2 (Fin 2) = Fin 2 \<and>
   getPointRedemptionPointsToDeduct asciiUpperCase order3 world2 [usd100] = Fin 2 \<and>
   directStep asciiUpperCase world2 [usd100] (cart_id order4) direct2 (Fin 3) = Fin 3 \<and>
   getPointRedemptionPointsToDeduct asciiUpperCase order4 world2 [usd100] = Fin 3 \<and>
   getPointRedemptionPointsToDeduct asciiUpperCase (order1\<lparr>cart_id := Some ''cart2''\<rparr>)
     world1 [usd100] = Fin 0 \<and>
   getPointRedemptionPointsToDeduct asciiUpperCase (order1\<lparr>cart_id := None\<rparr>)
     world1 [usd100] = Fin 0"
proof -
  have 1: "isPointRedemptionDiscount
             \<lparr>cd_fields = Some [(''isPointRedemtion'', JBool True),
                                (''referenceCart'', JStr ''cart1'')]\<rparr> (Some ''cart1'')"
    by (simp add: isPointRedemptionDiscount_def getProp_def nullish_def)
  have 2: "\<forall>i cd. cartDiscounts world1 i = Some cd \<longrightarrow>
             \<not> isPointRedemptionDiscount cd (cart_id (order1\<lparr>cart_id := Some ''cart2''\<rparr>))"
    by (auto simp: world1_def isPointRedemptionDiscount_def getProp_def nullish_def
             split: if_splits)
  have 3: "falsy (cart_id (order1\<lparr>cart_id := None\<rparr>))"
    by (simp add: falsy_def)
  have d2: "\<not> isPointRedemptionDiscount discount2 (Some ''cart1'')"
    by (simp add: discount2_def isPointRedemptionDiscount_def getProp_def nullish_def)
  have 4: "\<forall>ref i cd. discount portion2 = Some ref \<and> ref_id ref = Some i \<and>
              cartDiscounts world2 i = Some cd
            \<longrightarrow> \<not> isPointRedemptionDiscount cd (cart_id order3)"
    using d2 by (auto simp: portion2_def world2_def order3_def order1_def)
  have 5: "includedDiscounts order3 = Some ([portion1] @ portion2 # [])"
    by (simp add: order3_def)
  have 6: "includedLoop asciiUpperCase world2 [usd100] (cart_id order3) ([portion1] @ [])
             (Fin 0) = Fin 2"
    by code_simp
  have 7: "\<forall>i cd. dd_id direct2 = Some i \<and> cartDiscounts world2 i = Some cd
            \<longrightarrow> \<not> isPointRedemptionDiscount cd (cart_id order4)"
    using d2 by (auto simp: direct2_def world2_def order4_def order1_def)
  have 8: "(includedDiscounts order4 = None \<or> includedDiscounts order4 = Some []) \<and>
           directDiscounts order4 = Some ([direct1] @ direct2 # [])"
    by (simp add: order4_def)
  have 9: "directLoop asciiUpperCase world2 [usd100] (cart_id order4) ([direct1] @ [])
             (Fin 0) = Fin 3"
    by code_simp
  from redemption_requires_flag_and_cart
         [where cartDiscount = "\<lparr>cd_fields = Some [(''isPointRedemtion'', JBool True),
                                      (''referenceCart'', JStr ''cart1'')]\<rparr>"
            and orderCartId = "Some ''cart1''" and w = world1 and up = asciiUpperCase
            and order = "order1\<lparr>cart_id := Some ''cart2''\<rparr>" and rates = "[usd100]"
            and p = portion2 and ps = "[portion1]" and qs = "[]" and t = "Fin 2"
            and d = direct2 and ds = "[direct1]" and es = "[]"] 1 2
  have a: "(\<exists>cartId fields. Some ''cart1'' = Some cartId \<and> cartId \<noteq> [] \<and>
      fields = (case cd_fields \<lparr>cd_fields = Some [(''isPointRedemtion'', JBool True),
                                      (''referenceCart'', JStr ''cart1'')]\<rparr> of
                  None \<Rightarrow> [] | Some f \<Rightarrow> f) \<and>
      (getProp fields ''isPointRedemption'' = JBool True \<or>
       getProp fields ''isPointRedemtion'' = JBool True) \<and>
      (getProp fields ''referenceCart'' = JStr cartId \<or>
       getProp fields ''referenceCartId'' = JStr cartId)) \<and>
   getPointRedemptionPointsToDeduct asciiUpperCase (order1\<lparr>cart_id := Some ''cart2''\<rparr>)
     world1 [usd100] = Fin 0"
    by blast
  from redemption_requires_flag_and_cart
         [where cartDiscount = "\<lparr>cd_fields = None\<rparr>" and orderCartId = None and w = world1
            and up = asciiUpperCase
            and order = "order1\<lparr>cart_id := None\<rparr>" and rates = "[usd100]"
            and p = portion2 and ps = "[portion1]" and qs = "[]" and t = "Fin 2"
            and d = direct2 and ds = "[direct1]" and es = "[]"] 3
  have b: "getPointRedemptionPointsToDeduct asciiUpperCase (order1\<lparr>cart_id := None\<rparr>)
             world1 [usd100] = Fin 0"
    by blast
  from redemption_requires_flag_and_cart
         [where cartDiscount = "\<lparr>cd_fields = None\<rparr>" and orderCartId = None and w = world2
            and up = asciiUpperCase and order = order3 and rates = "[usd100]"
            and p = portion2 and ps = "[portion1]" and qs = "[]" and t = "Fin 2"
            and d = direct2 and ds = "[direct1]" and es = "[]"] 4 5 6
  have c: "portionStep asciiUpperCase world2 [usd100] (cart_id order3) portion2 (Fin 2) = Fin 2 \<and>
           getPointRedemptionPointsToDeduct asciiUpperCase order3 world2 [usd100] = Fin 2"
    by simp
  from redemption_requires_flag_and_cart
         [where cartDiscount = "\<lparr>cd_fields = None\<rparr>" and orderCartId = None and w = world2
            and up = asciiUpperCase and order = order4 and rates = "[usd100]"
            and d = direct2 and ds = "[direct1]" and es = "[]" and t = "Fin 3"
            and p = portion2 and ps = "[portion1]" and qs = "[]"] 7 8 9
  have d: "directStep asciiUpperCase world2 [usd100] (cart_id order4) direct2 (Fin 3) = Fin 3 \<and>
           getPointRedemptionPointsToDeduct asciiUpperCase order4 world2 [usd100] = Fin 3"
    by simp
  from a b c d show ?thesis by simp
qed

text \<open>
  C3. When the list of included discounts is not empty, the points to deduct are the
  result of the loop over the included discounts alone, and the direct discounts of the
  order do not change them. When the list is missing or empty, they are the result of
  the loop over the direct discounts alone.
\<close>

theorem redemption_single_path:
  "(includedDiscounts order = Some ps \<and> ps \<noteq> []
      \<longrightarrow> getPointRedemptionPointsToDeduct up order w rates =
            includedLoop up w rates (cart_id order) ps (Fin 0) \<and>
          getPointRedemptionPointsToDeduct up (order\<lparr>directDiscounts := dds\<rparr>) w rates =
            getPointRedemptionPointsToDeduct up order w rates) \<and>
   (includedDiscounts order = None \<or> includedDiscounts order = Some []
      \<longrightarrow> getPointRedemptionPointsToDeduct up order w rates =
            directLoop up w rates (cart_id order)
              (case directDiscounts order of None \<Rightarrow> [] | Some ds \<Rightarrow> ds) (Fin 0))"
proof (intro conjI impI)
  assume h: "includedDiscounts order = Some ps \<and> ps \<noteq> []"
  then show "getPointRedemptionPointsToDeduct up order w rates =
            includedLoop up w rates (cart_id order) ps (Fin 0)"
    by (simp add: getPointRedemptionPointsToDeduct_def Let_def)
  from h show "getPointRedemptionPointsToDeduct up (order\<lparr>directDiscounts := dds\<rparr>) w rates =
            getPointRedemptionPointsToDeduct up order w rates"
    by (simp add: getPointRedemptionPointsToDeduct_def Let_def)
next
  assume "includedDiscounts order = None \<or> includedDiscounts order = Some []"
  then show "getPointRedemptionPointsToDeduct up order w rates =
            directLoop up w rates (cart_id order)
              (case directDiscounts order of None \<Rightarrow> [] | Some ds \<Rightarrow> ds) (Fin 0)"
    by (auto simp: getPointRedemptionPointsToDeduct_def Let_def split: option.splits)
qed

text \<open>
  The theorem at the order \<open>o1\<close>, whose included discount is worth 2 points and whose
  direct discount would be worth 3: with both, and without the direct discount, the
  result is 2; without the included discount it is 3.
\<close>

theorem redemption_single_path_witness:
  "getPointRedemptionPointsToDeduct asciiUpperCase order1 world1 [usd100] = Fin 2 \<and>
   getPointRedemptionPointsToDeduct asciiUpperCase (order1\<lparr>directDiscounts := None\<rparr>) world1 [usd100] = Fin 2 \<and>
   getPointRedemptionPointsToDeduct asciiUpperCase (order1\<lparr>includedDiscounts := Some []\<rparr>) world1 [usd100] = Fin 3"
proof -
  have 1: "includedDiscounts order1 =
             Some [\<lparr>discount = Some \<lparr>typeId = Some ''cart-discount'', ref_id = Some ''d1''\<rparr>,
                    discountedAmount = Some (usd 200)\<rparr>] \<and>
           [\<lparr>discount = Some \<lparr>typeId = Some ''cart-discount'', ref_id = Some ''d1''\<rparr>,
                    discountedAmount = Some (usd 200)\<rparr>] \<noteq> []"
    by (simp add: order1_def)
  have 2: "includedLoop asciiUpperCase world1 [usd100] (cart_id order1)
             [\<lparr>discount = Some \<lparr>typeId = Some ''cart-discount'', ref_id = Some ''d1''\<rparr>,
               discountedAmount = Some (usd 200)\<rparr>] (Fin 0) = Fin 2"
    by code_simp
  have 3: "includedDiscounts (order1\<lparr>includedDiscounts := Some []\<rparr>) = None \<or>
           includedDiscounts (order1\<lparr>includedDiscounts := Some []\<rparr>) = Some []"
    by simp
  have 4: "directLoop asciiUpperCase world1 [usd100] (cart_id (order1\<lparr>includedDiscounts := Some []\<rparr>))
             (case directDiscounts (order1\<lparr>includedDiscounts := Some []\<rparr>) of
                None \<Rightarrow> [] | Some ds \<Rightarrow> ds) (Fin 0) = Fin 3"
    by code_simp
  from redemption_single_path [where order = order1 and w = world1 and rates = "[usd100]"
         and dds = None
         and ps = "[\<lparr>discount = Some \<lparr>typeId = Some ''cart-discount'', ref_id = Some ''d1''\<rparr>,
                     discountedAmount = Some (usd 200)\<rparr>]"] 1 2
  have a: "getPointRedemptionPointsToDeduct asciiUpperCase order1 world1 [usd100] = Fin 2 \<and>
           getPointRedemptionPointsToDeduct asciiUpperCase (order1\<lparr>directDiscounts := None\<rparr>) world1 [usd100]
             = Fin 2"
    by simp
  from redemption_single_path [where order = "order1\<lparr>includedDiscounts := Some []\<rparr>"
         and w = world1 and rates = "[usd100]" and dds = None and ps = "[]"] 3 4
  have b: "getPointRedemptionPointsToDeduct asciiUpperCase (order1\<lparr>includedDiscounts := Some []\<rparr>) world1
             [usd100] = Fin 3"
    by simp
  from a b show ?thesis by simp
qed

subsection \<open>Points from payments\<close>

text \<open>
  C8, as the code has it. \<open>getPointsFromPayments\<close> adds the points of every payment
  reference of the list, once per occurrence: a reference \<open>r\<close> to a payment with a
  numeric amount and a currency, appended to any list \<open>ps\<close> of references (whether or
  not \<open>r\<close> occurs in \<open>ps\<close>), adds the points of that payment to the sum for \<open>ps\<close>.
\<close>

theorem payments_counted_per_reference:
  "ref_id r = Some i \<and> i \<noteq> [] \<and> paymentsById w i = Some payment \<and>
   amountPlanned payment = Some m \<and> centAmount m = Some n \<and> currencyOf m = Some c \<and> c \<noteq> []
   \<longrightarrow> getPointsFromPayments up (order\<lparr>payments := Some (ps @ [r])\<rparr>) w rates =
        js_add (getPointsFromPayments up (order\<lparr>payments := Some ps\<rparr>) w rates)
          (currencyToPoints up n c rates)"
  by (simp add: getPointsFromPayments_def paymentsLoop_append paymentStep_def getById_def
        addAmount_def)

text \<open>
  The theorem at the payment \<open>p1\<close> of 500 cents appended to a list that holds \<open>p1\<close>
  already: the sum is 10.
\<close>

theorem payments_counted_per_reference_witness:
  "getPointsFromPayments asciiUpperCase
     (order1\<lparr>payments := Some ([\<lparr>typeId = Some ''payment'', ref_id = Some ''p1''\<rparr>] @
                                [\<lparr>typeId = Some ''payment'', ref_id = Some ''p1''\<rparr>])\<rparr>)
     world1 [usd100] = Fin 10"
proof -
  have 1: "ref_id \<lparr>typeId = Some ''payment'', ref_id = Some ''p1''\<rparr> = Some ''p1'' \<and> ''p1'' \<noteq> [] \<and>
           paymentsById world1 ''p1'' = Some \<lparr>amountPlanned = Some (usd 500)\<rparr> \<and>
           amountPlanned \<lparr>amountPlanned = Some (usd 500)\<rparr> = Some (usd 500) \<and>
           centAmount (usd 500) = Some (Fin 500) \<and> currencyOf (usd 500) = Some ''USD'' \<and>
           ''USD'' \<noteq> []"
    by (simp add: world1_def usd_def currencyOf_def)
  have 2: "getPointsFromPayments asciiUpperCase
             (order1\<lparr>payments := Some [\<lparr>typeId = Some ''payment'', ref_id = Some ''p1''\<rparr>]\<rparr>)
             world1 [usd100] = Fin 5"
    by code_simp
  have 3: "currencyToPoints asciiUpperCase (Fin 500) ''USD'' [usd100] = Fin 5"
    by code_simp
  from payments_counted_per_reference
         [where r = "\<lparr>typeId = Some ''payment'', ref_id = Some ''p1''\<rparr>" and i = "''p1''"
            and w = world1 and payment = "\<lparr>amountPlanned = Some (usd 500)\<rparr>"
            and m = "usd 500" and n = "Fin 500" and c = "''USD''" and order = order1
            and ps = "[\<lparr>typeId = Some ''payment'', ref_id = Some ''p1''\<rparr>]"
            and rates = "[usd100]"] 1 2 3
  show ?thesis by simp
qed

text \<open>
  C8 as the specification states it fails: for the order that refers twice to the
  payment \<open>p1\<close>, worth 5 points, the code returns 10 and the deduplicated sum is 5.
\<close>

theorem payments_not_deduplicated_counterexample:
  "getPointsFromPayments asciiUpperCase order2 world1 [usd100] = Fin 10 \<and>
   pointsFromPayments_spec asciiUpperCase order2 world1 [usd100] = Fin 5"
  by code_simp

subsection \<open>The balance written by the handlers\<close>

text \<open>
  C1. When a handler reaches its write with a current balance, earned points and
  points to deduct that are numbers, \<open>handleOrderCreated\<close> writes
  \<open>max 0 (current + earned - deducted)\<close> and \<open>handleOrderCancelled\<close> writes
  \<open>max 0 (current - earned + deducted)\<close>. Whatever the world, no balance that either
  handler writes is less than 0.
\<close>

theorem balance_formulas:
  "(orders w oid = Some order \<and> customerId order = Some cid \<and> cid \<noteq> [] \<and>
    getConversionRates w = Inr conv \<and> conv \<noteq> [] \<and> redemptionRates w = Inr red \<and>
    customers w cid = Some customer \<and>
    getCurrentAvailablePoints s customer = Fin current \<and>
    getPointsFromPayments up order w conv = Fin earned \<and>
    getPointRedemptionPointsToDeduct up order w red = Fin deducted
    \<longrightarrow> balancesWritten (snd (handleOrderCreated s up oid w)) =
           balancesWritten w @ [Fin (max 0 (current + earned - deducted))] \<and>
         balancesWritten (snd (handleOrderCancelled s up oid w)) =
           balancesWritten w @ [Fin (max 0 (current - earned + deducted))]) \<and>
   (\<forall>v \<in> set (drop (length (balancesWritten w))
                 (balancesWritten (snd (handleOrderCreated s up oid w)))). \<not> js_lt v (Fin 0)) \<and>
   (\<forall>v \<in> set (drop (length (balancesWritten w))
                 (balancesWritten (snd (handleOrderCancelled s up oid w)))). \<not> js_lt v (Fin 0))"
proof (intro conjI impI)
  assume h: "orders w oid = Some order \<and> customerId order = Some cid \<and> cid \<noteq> [] \<and>
    getConversionRates w = Inr conv \<and> conv \<noteq> [] \<and> redemptionRates w = Inr red \<and>
    customers w cid = Some customer \<and>
    getCurrentAvailablePoints s customer = Fin current \<and>
    getPointsFromPayments up order w conv = Fin earned \<and>
    getPointRedemptionPointsToDeduct up order w red = Fin deducted"
  then have "handleOrderCreated s up oid w =
     customersPost cid (version customer)
       ((if falsy (custom_type_id customer) \<or>
            custom_type_obj_key customer \<noteq> Some CUSTOMER_LOYALTY_CUSTOM_TYPE
         then [SetCustomType CUSTOMER_LOYALTY_CUSTOM_TYPE] else []) @
        [SetCustomField AVAILABLE_POINTS_KEY
           (Math_max (Fin 0) (js_sub (js_add (Fin current) (Fin earned)) (Fin deducted)))]) w"
    using handleOrderCreated_applied [of w oid order cid conv red customer s up] by simp
  then show "balancesWritten (snd (handleOrderCreated s up oid w)) =
           balancesWritten w @ [Fin (max 0 (current + earned - deducted))]"
    by (simp add: balancesWritten_customersPost)
  from h have "handleOrderCancelled s up oid w =
     customersPost cid (version customer)
       ((if falsy (custom_type_id customer)
         then [SetCustomType CUSTOMER_LOYALTY_CUSTOM_TYPE] else []) @
        [SetCustomField AVAILABLE_POINTS_KEY
           (Math_max (Fin 0) (js_add (js_sub (Fin current) (Fin earned)) (Fin deducted)))]) w"
    using handleOrderCancelled_applied [of w oid order cid conv red customer s up] by simp
  then show "balancesWritten (snd (handleOrderCancelled s up oid w)) =
           balancesWritten w @ [Fin (max 0 (current - earned + deducted))]"
    by (simp add: balancesWritten_customersPost)
next
  show "\<forall>v \<in> set (drop (length (balancesWritten w))
                 (balancesWritten (snd (handleOrderCreated s up oid w)))). \<not> js_lt v (Fin 0)"
    using handleOrderCreated_written [of s up oid w] by (auto simp: Math_max_not_negative)
next
  show "\<forall>v \<in> set (drop (length (balancesWritten w))
                 (balancesWritten (snd (handleOrderCancelled s up oid w)))). \<not> js_lt v (Fin 0)"
    using handleOrderCancelled_written [of s up oid w] by (auto simp: Math_max_not_negative)
qed

text \<open>
  The theorem at the order \<open>o1\<close>: from a balance of 10, with 5 points earned and 4 to
  deduct, the forward handler writes 11 and the reversal writes 9.
\<close>

theorem balance_formulas_witness:
  "balancesWritten (snd (handleOrderCreated noStringCoercion asciiUpperCase ''o1'' world1)) = [Fin 11] \<and>
   balancesWritten (snd (handleOrderCancelled noStringCoercion asciiUpperCase ''o1'' world1)) = [Fin 9]"
proof -
  have e: "balancesWritten world1 = []"
    by (simp add: balancesWritten_def world1_def)
  from balance_formulas
         [where w = world1 and oid = "''o1''" and order = order1 and cid = "''c1''"
            and conv = "[usd100]" and red = "[usd50]" and customer = customer1
            and s = noStringCoercion and up = asciiUpperCase and current = 10 and earned = 5 and deducted = 4]
       world1_gates world1_points e
  show ?thesis by simp
qed

text \<open>
  C10, as the code has it. A stored \<open>availablePoints\<close> that is a negative number is
  read as its floor, which is negative as well, and as the number itself when it is an
  integer: the read does not clamp. The balance that either handler then writes is the
  clamped \<open>max 0\<close> of the sum, which is not less than 0.
\<close>

theorem negative_balance_read_then_clamped:
  "(custom_fields customer = Some f \<and> getProp f AVAILABLE_POINTS_KEY = JNum (Fin q) \<and> q < 0
    \<longrightarrow> getCurrentAvailablePoints s customer = Fin (of_int \<lfloor>q\<rfloor>) \<and>
         rat_of_int \<lfloor>q\<rfloor> < 0 \<and>
         (q \<in> \<int> \<longrightarrow> getCurrentAvailablePoints s customer = Fin q)) \<and>
   (orders w oid = Some order \<and> customerId order = Some cid \<and> cid \<noteq> [] \<and>
    getConversionRates w = Inr conv \<and> conv \<noteq> [] \<and> redemptionRates w = Inr red \<and>
    customers w cid = Some customer \<and>
    custom_fields customer = Some f \<and> getProp f AVAILABLE_POINTS_KEY = JNum (Fin q) \<and> q < 0 \<and>
    getPointsFromPayments up order w conv = Fin earned \<and>
    getPointRedemptionPointsToDeduct up order w red = Fin deducted
    \<longrightarrow> balancesWritten (snd (handleOrderCreated s up oid w)) =
           balancesWritten w @ [Fin (max 0 (of_int \<lfloor>q\<rfloor> + earned - deducted))] \<and>
         balancesWritten (snd (handleOrderCancelled s up oid w)) =
           balancesWritten w @ [Fin (max 0 (of_int \<lfloor>q\<rfloor> - earned + deducted))] \<and>
         js_le (Fin 0) (Fin (max 0 (of_int \<lfloor>q\<rfloor> + earned - deducted))) \<and>
         js_le (Fin 0) (Fin (max 0 (of_int \<lfloor>q\<rfloor> - earned + deducted))))"
proof (intro conjI impI)
  assume h: "custom_fields customer = Some f \<and> getProp f AVAILABLE_POINTS_KEY = JNum (Fin q) \<and>
    q < 0"
  then show r: "getCurrentAvailablePoints s customer = Fin (of_int \<lfloor>q\<rfloor>)"
    using read_number [of q]
    by (simp add: getCurrentAvailablePoints_def Let_def del: Number_isInteger.simps)
  from h show "rat_of_int \<lfloor>q\<rfloor> < 0"
    by (simp add: floor_less_iff)
  assume "q \<in> \<int>"
  with r show "getCurrentAvailablePoints s customer = Fin q"
    by (auto simp: Ints_def)
next
  assume h: "orders w oid = Some order \<and> customerId order = Some cid \<and> cid \<noteq> [] \<and>
    getConversionRates w = Inr conv \<and> conv \<noteq> [] \<and> redemptionRates w = Inr red \<and>
    customers w cid = Some customer \<and>
    custom_fields customer = Some f \<and> getProp f AVAILABLE_POINTS_KEY = JNum (Fin q) \<and> q < 0 \<and>
    getPointsFromPayments up order w conv = Fin earned \<and>
    getPointRedemptionPointsToDeduct up order w red = Fin deducted"
  then have r: "getCurrentAvailablePoints s customer = Fin (of_int \<lfloor>q\<rfloor>)"
    using read_number [of q]
    by (simp add: getCurrentAvailablePoints_def Let_def del: Number_isInteger.simps)
  from h r show "balancesWritten (snd (handleOrderCreated s up oid w)) =
           balancesWritten w @ [Fin (max 0 (of_int \<lfloor>q\<rfloor> + earned - deducted))]"
    using handleOrderCreated_applied [of w oid order cid conv red customer s up]
    by (simp add: balancesWritten_customersPost)
  from h r show "balancesWritten (snd (handleOrderCancelled s up oid w)) =
           balancesWritten w @ [Fin (max 0 (of_int \<lfloor>q\<rfloor> - earned + deducted))]"
    using handleOrderCancelled_applied [of w oid order cid conv red customer s up]
    by (simp add: balancesWritten_customersPost)
  show "js_le (Fin 0) (Fin (max 0 (of_int \<lfloor>q\<rfloor> + earned - deducted)))"
    by simp
  show "js_le (Fin 0) (Fin (max 0 (of_int \<lfloor>q\<rfloor> - earned + deducted)))"
    by simp
qed

text \<open>
  The theorem at a stored balance of \<open>-5\<close>: it is read as \<open>-5\<close>, and both handlers
  write 0.
\<close>

theorem negative_balance_read_then_clamped_witness:
  "getCurrentAvailablePoints noStringCoercion customer_negative = Fin (- 5) \<and>
   balancesWritten (snd (handleOrderCreated noStringCoercion asciiUpperCase ''o1'' world_negative)) = [Fin 0] \<and>
   balancesWritten (snd (handleOrderCancelled noStringCoercion asciiUpperCase ''o1'' world_negative)) = [Fin 0]"
proof -
  have e: "balancesWritten world_negative = []"
    by (simp add: balancesWritten_def world_negative_def world1_def)
  have n: "(- 5 :: rat) < 0 \<and> (- 5 :: rat) \<in> \<int> \<and> \<lfloor>- 5 :: rat\<rfloor> = - 5"
    by simp
  from negative_balance_read_then_clamped
         [where w = world_negative and oid = "''o1''" and order = order1 and cid = "''c1''"
            and conv = "[usd100]" and red = "[usd50]" and customer = customer_negative
            and s = noStringCoercion and up = asciiUpperCase and f = "[(''availablePoints'', JNum (Fin (- 5)))]"
            and q = "- 5" and earned = 5 and deducted = 4]
       world_negative_gates world_negative_points e n
  show ?thesis by simp
qed

text \<open>
  C10 as the specification states it fails: the stored negative number \<open>-2.5\<close> is not
  returned unchanged, it is read as \<open>-3\<close>.
\<close>

theorem negative_fraction_floored_counterexample:
  "getCurrentAvailablePoints noStringCoercion
     (customer1\<lparr>custom_fields := Some [(''availablePoints'', JNum (Fin (- 5 / 2)))]\<rparr>) = Fin (- 3) \<and>
   getCurrentAvailablePoints noStringCoercion
     (customer1\<lparr>custom_fields := Some [(''availablePoints'', JNum (Fin (- 5 / 2)))]\<rparr>)
     \<noteq> Fin (- 5 / 2)"
  by code_simp

subsection \<open>The rate tables of the handlers\<close>



subsection \<open>A write that loses a race\<close>

text \<open>
  C6, as the code has it. A handler sends at most one customer write. When the write
  loses a race, the handler has sent that one write, with the version it read, and the
  version conflict leaves the handler as its rejection: nothing is read again and
  nothing is retried. \<^verbatim>\<open>post\<close> catches what a handler throws and answers 204 for
  every message that names an order.
\<close>

theorem write_not_retried:
  "length (posts (snd (handleOrderCreated s up oid w))) \<le> Suc (length (posts w)) \<and>
   length (posts (snd (handleOrderCancelled s up oid w))) \<le> Suc (length (posts w)) \<and>
   (orders w oid = Some order \<and> customerId order = Some cid \<and> cid \<noteq> [] \<and>
    getConversionRates w = Inr conv \<and> conv \<noteq> [] \<and> redemptionRates w = Inr red \<and>
    customers w cid = Some customer \<and> 0 < conflicts w
    \<longrightarrow> fst (handleOrderCreated s up oid w) = Inl ConcurrentModification \<and>
         fst (handleOrderCancelled s up oid w) = Inl ConcurrentModification \<and>
         map upd_version (posts (snd (handleOrderCreated s up oid w))) =
           map upd_version (posts w) @ [version customer] \<and>
         map upd_version (posts (snd (handleOrderCancelled s up oid w))) =
           map upd_version (posts w) @ [version customer]) \<and>
   (notificationType jsonData \<noteq> Some ''ResourceCreated'' \<and> order_id jsonData = Some oid \<and>
    oid \<noteq> []
    \<longrightarrow> fst (post s up jsonData w) = Status 204)"
proof (intro conjI impI)
  show "length (posts (snd (handleOrderCreated s up oid w))) \<le> Suc (length (posts w))"
    using handleOrderCreated_cases [of s up oid w] by (auto simp: length_posts_customersPost)
  show "length (posts (snd (handleOrderCancelled s up oid w))) \<le> Suc (length (posts w))"
    using handleOrderCancelled_cases [of s up oid w] by (auto simp: length_posts_customersPost)
next
  assume h: "orders w oid = Some order \<and> customerId order = Some cid \<and> cid \<noteq> [] \<and>
    getConversionRates w = Inr conv \<and> conv \<noteq> [] \<and> redemptionRates w = Inr red \<and>
    customers w cid = Some customer \<and> 0 < conflicts w"
  then have c: "handleOrderCreated s up oid w =
     customersPost cid (version customer)
       ((if falsy (custom_type_id customer) \<or>
            custom_type_obj_key customer \<noteq> Some CUSTOMER_LOYALTY_CUSTOM_TYPE
         then [SetCustomType CUSTOMER_LOYALTY_CUSTOM_TYPE] else []) @
        [SetCustomField AVAILABLE_POINTS_KEY
           (Math_max (Fin 0)
              (js_sub (js_add (getCurrentAvailablePoints s customer)
                         (getPointsFromPayments up order w conv))
                 (getPointRedemptionPointsToDeduct up order w red)))]) w"
    by (intro handleOrderCreated_applied) auto
  from h have d: "handleOrderCancelled s up oid w =
     customersPost cid (version customer)
       ((if falsy (custom_type_id customer)
         then [SetCustomType CUSTOMER_LOYALTY_CUSTOM_TYPE] else []) @
        [SetCustomField AVAILABLE_POINTS_KEY
           (Math_max (Fin 0)
              (js_add (js_sub (getCurrentAvailablePoints s customer)
                         (getPointsFromPayments up order w conv))
                 (getPointRedemptionPointsToDeduct up order w red)))]) w"
    by (intro handleOrderCancelled_applied) auto
  from h show "fst (handleOrderCreated s up oid w) = Inl ConcurrentModification"
    unfolding c by (intro customersPost_conflict) auto
  from h show "fst (handleOrderCancelled s up oid w) = Inl ConcurrentModification"
    unfolding d by (intro customersPost_conflict) auto
  show "map upd_version (posts (snd (handleOrderCreated s up oid w))) =
           map upd_version (posts w) @ [version customer]"
    unfolding c by (simp add: posts_customersPost)
  show "map upd_version (posts (snd (handleOrderCancelled s up oid w))) =
           map upd_version (posts w) @ [version customer]"
    unfolding d by (simp add: posts_customersPost)
next
  assume "notificationType jsonData \<noteq> Some ''ResourceCreated'' \<and> order_id jsonData = Some oid \<and>
    oid \<noteq> []"
  then show "fst (post s up jsonData w) = Status 204"
    by (simp add: post_def)
qed

text \<open>
  The theorem at the order \<open>o1\<close> in the world where the next write loses a race.
\<close>

theorem write_not_retried_witness:
  "fst (handleOrderCreated noStringCoercion asciiUpperCase ''o1'' world_race) = Inl ConcurrentModification \<and>
   fst (handleOrderCancelled noStringCoercion asciiUpperCase ''o1'' world_race) = Inl ConcurrentModification \<and>
   map upd_version (posts (snd (handleOrderCreated noStringCoercion asciiUpperCase ''o1'' world_race))) = [3] \<and>
   map upd_version (posts (snd (handleOrderCancelled noStringCoercion asciiUpperCase ''o1'' world_race))) = [3] \<and>
   fst (post noStringCoercion asciiUpperCase orderCreated_o1 world_race) = Status 204"
proof -
  have e: "posts world_race = [] \<and> version customer1 = 3"
    by (simp add: world_race_def world1_def customer1_def)
  have j: "notificationType orderCreated_o1 \<noteq> Some ''ResourceCreated'' \<and>
           order_id orderCreated_o1 = Some ''o1'' \<and> ''o1'' \<noteq> []"
    by (simp add: orderCreated_o1_def)
  from write_not_retried
         [where w = world_race and oid = "''o1''" and order = order1 and cid = "''c1''"
            and conv = "[usd100]" and red = "[usd50]" and customer = customer1
            and s = noStringCoercion and up = asciiUpperCase and jsonData = orderCreated_o1]
       world_race_gates e j
  show ?thesis by simp
qed

text \<open>
  C6 as the specification states it fails: where the next write loses a race, the
  handler ends with the version conflict after one write at version 3, and the retry of
  the specification would end well after a second write at version 4.
\<close>

theorem write_not_retried_counterexample:
  "fst (handleOrderCreated noStringCoercion asciiUpperCase ''o1'' world_race) = Inl ConcurrentModification \<and>
   map upd_version (posts (snd (handleOrderCreated noStringCoercion asciiUpperCase ''o1'' world_race))) = [3] \<and>
   fst (retryOnConflict 3 (handleOrderCreated noStringCoercion asciiUpperCase ''o1'') world_race) = Inr () \<and>
   map upd_version
     (posts (snd (retryOnConflict 3 (handleOrderCreated noStringCoercion asciiUpperCase ''o1'') world_race)))
     = [3, 4]"
  by code_simp

end
